theory Spec2Isabelle
  imports Main "HOL-Library.Word" "HOL-Library.Sublist"
begin

section \<open>Shared vocabulary: errors and strings\<close>

text \<open>
  A Go \<^verbatim>\<open>string\<close> is a sequence of bytes, as a HOL \<open>string\<close> is. A Go \<^verbatim>\<open>int\<close>
  is modelled as \<open>int\<close>: the code only compares and copies the pool bounds, it does no
  arithmetic on them, so no wrap-around can occur.

  A Go \<^verbatim>\<open>error\<close> is a value. \<open>ErrNotInitialized\<close> is the sentinel of package connutil;
  \<open>Ext m\<close> is an error value made outside the code under study (a driver, the network,
  the store, a plugin); \<open>Errorf f args\<close> is \<^verbatim>\<open>fmt.Errorf(f, args...)\<close>, kept unformatted;
  \<open>MultiError es\<close> is a \<^verbatim>\<open>*multierror.Error\<close> holding \<open>es\<close>; \<open>Panic m\<close> stands for a
  run-time panic of the Go program (it is not an error value the caller can receive).
\<close>

record Entry =
  DN :: string
  Attributes :: "(string \<times> string list) list"

datatype error =
    ErrNotInitialized
  | Ext string
  | Errorf string "fmtarg list"
  | MultiError "error list"
  | Panic string
and fmtarg =
    ArgS string
  | ArgE error
  | ArgEntries "Entry list"
  | ArgHostPort string string

text \<open>\<^verbatim>\<open>strings.HasPrefix(s, prefix)\<close> and \<^verbatim>\<open>strings.Contains(s, substr)\<close>.\<close>

fun HasPrefix :: "string \<Rightarrow> string \<Rightarrow> bool" where
  "HasPrefix s [] = True"
| "HasPrefix [] (p # ps) = False"
| "HasPrefix (c # s) (p # ps) = (c = p \<and> HasPrefix s ps)"

fun Contains :: "string \<Rightarrow> string \<Rightarrow> bool" where
  "Contains [] substr = (substr = [])"
| "Contains (c # s) substr = (HasPrefix (c # s) substr \<or> Contains s substr)"

section \<open>The SQL connection producer (plugins/helper/database/connutil/sql.go)\<close>

text \<open>
  An \<^verbatim>\<open>interface{}\<close> value that is not nil; nil is \<open>None\<close> of the option type.
\<close>

datatype iface = IStr string | IInt int | IBool bool

type_synonym conf = "string \<rightharpoonup> iface"
type_synonym Duration = int
type_synonym handle = nat

record SQLConnectionProducer =
  ConnectionURL :: string
  MaxOpenConnections :: int
  MaxIdleConnections :: int
  MaxConnectionLifetimeRaw :: "iface option"
  Username :: string
  Password :: string
  Type :: string
  maxConnectionLifetime :: Duration
  Initialized :: bool
  db :: "handle option"

text \<open>
  The package \<^verbatim>\<open>database/sql\<close> is outside the code. Its state is the list of the calls
  made into it so far, oldest first, and the number of handles \<^verbatim>\<open>sql.Open\<close> has
  returned; a \<^verbatim>\<open>*sql.DB\<close> is the number of the \<^verbatim>\<open>sql.Open\<close> that made it.
\<close>

datatype sql_call =
    sql_Open string string
  | PingContext handle
  | DB_Close handle
  | SetMaxOpenConns handle int
  | SetMaxIdleConns handle int
  | SetConnMaxLifetime handle Duration

record sql_world =
  calls :: "sql_call list"
  opened :: nat

text \<open>
  What the code cannot decide is a parameter: the outcome of each library call, which
  may depend on everything that happened before (the calls so far). A driver's error is
  its message \<open>m\<close>, received as \<open>Ext m\<close>: no library returns connutil's own sentinel.
  \<^verbatim>\<open>mapstructure.WeakDecode(conf, c)\<close> writes into the producer in place and may fail
  after writing some fields; \<^verbatim>\<open>parseutil.ParseDurationSecond\<close> returns a duration and
  an error.
\<close>

record sql_env =
  WeakDecode :: "conf \<Rightarrow> SQLConnectionProducer \<Rightarrow> error option \<times> SQLConnectionProducer"
  ParseDurationSecond :: "iface option \<Rightarrow> Duration \<times> error option"
  open_err :: "sql_call list \<Rightarrow> string \<Rightarrow> string \<Rightarrow> string option"
  ping_err :: "sql_call list \<Rightarrow> handle \<Rightarrow> string option"
  close_err :: "sql_call list \<Rightarrow> handle \<Rightarrow> string option"

definition called :: "sql_call \<Rightarrow> sql_world \<Rightarrow> sql_world" where
  "called ev w = w\<lparr>calls := calls w @ [ev]\<rparr>"

definition db_PingContext :: "sql_env \<Rightarrow> handle \<Rightarrow> sql_world \<Rightarrow> error option \<times> sql_world" where
  "db_PingContext E h w = (map_option Ext (ping_err E (calls w) h), called (PingContext h) w)"

definition db_Close :: "sql_env \<Rightarrow> handle \<Rightarrow> sql_world \<Rightarrow> error option \<times> sql_world" where
  "db_Close E h w = (map_option Ext (close_err E (calls w) h), called (DB_Close h) w)"

text \<open>\<^verbatim>\<open>sql.Open\<close> returns a nil handle together with an error.\<close>

definition sql_Open_call :: "sql_env \<Rightarrow> string \<Rightarrow> string \<Rightarrow> sql_world \<Rightarrow> (error + handle) \<times> sql_world" where
  "sql_Open_call E driverName dataSourceName w =
     (case open_err E (calls w) driverName dataSourceName of
        Some m \<Rightarrow> (Inl (Ext m), called (sql_Open driverName dataSourceName) w)
      | None \<Rightarrow> (Inr (opened w),
                 (called (sql_Open driverName dataSourceName) w)\<lparr>opened := Suc (opened w)\<rparr>))"

text \<open>Lines 120 to 136 of \<^verbatim>\<open>Connection\<close>: the driver name and the connection string.\<close>

definition dbType_of :: "SQLConnectionProducer \<Rightarrow> string" where
  "dbType_of c = (if Type c = ''mssql'' then ''sqlserver'' else Type c)"

definition conn_of :: "SQLConnectionProducer \<Rightarrow> string" where
  "conn_of c =
     (let conn = ConnectionURL c in
      if HasPrefix conn ''postgres://'' \<or> HasPrefix conn ''postgresql://''
      then (if Contains conn ''?'' then conn @ ''&timezone=utc'' else conn @ ''?timezone=utc'')
      else conn)"

text \<open>
  \<^verbatim>\<open>Connection\<close>. The result is the returned pair (here a sum), the producer after the
  call and the library's state after the call. \<open>reopen\<close> is the second half of the
  function, from line 120 on.
\<close>

definition reopen ::
  "sql_env \<Rightarrow> SQLConnectionProducer \<Rightarrow> sql_world \<Rightarrow> (error + handle) \<times> SQLConnectionProducer \<times> sql_world"
where
  "reopen E c w =
     (case sql_Open_call E (dbType_of c) (conn_of c) w of
        (Inl err, w1) \<Rightarrow> (Inl err, c\<lparr>db := None\<rparr>, w1)
      | (Inr h, w1) \<Rightarrow>
          (Inr h, c\<lparr>db := Some h\<rparr>,
           called (SetConnMaxLifetime h (maxConnectionLifetime c))
             (called (SetMaxIdleConns h (MaxIdleConnections c))
               (called (SetMaxOpenConns h (MaxOpenConnections c)) w1))))"

definition Connection ::
  "sql_env \<Rightarrow> SQLConnectionProducer \<Rightarrow> sql_world \<Rightarrow> (error + handle) \<times> SQLConnectionProducer \<times> sql_world"
where
  "Connection E c w =
     (if \<not> Initialized c then (Inl ErrNotInitialized, c, w)
      else
        (case db c of
           None \<Rightarrow> reopen E c w
         | Some h \<Rightarrow>
             (case db_PingContext E h w of
                (None, w1) \<Rightarrow> (Inr h, c, w1)
              | (Some err, w1) \<Rightarrow> reopen E c (snd (db_Close E h w1)))))"

text \<open>
  \<^verbatim>\<open>Initialize\<close>. \<^verbatim>\<open>dbutil.QueryHelper\<close> is called for nothing: its result is dropped.
  The mutex is left out: the model is of one call at a time.
\<close>

definition pool_defaults :: "SQLConnectionProducer \<Rightarrow> SQLConnectionProducer" where
  "pool_defaults c =
     (let c1 = (if MaxOpenConnections c = 0 then c\<lparr>MaxOpenConnections := 2\<rparr> else c);
          c2 = (if MaxIdleConnections c1 = 0
                then c1\<lparr>MaxIdleConnections := MaxOpenConnections c1\<rparr> else c1);
          c3 = (if MaxIdleConnections c2 > MaxOpenConnections c2
                then c2\<lparr>MaxIdleConnections := MaxOpenConnections c2\<rparr> else c2)
      in (if MaxConnectionLifetimeRaw c3 = None
          then c3\<lparr>MaxConnectionLifetimeRaw := Some (IStr ''0s'')\<rparr> else c3))"

text \<open>Lines 92 to 102: the verification asked for by \<^verbatim>\<open>verifyConnection\<close>.\<close>

definition verify ::
  "sql_env \<Rightarrow> conf \<Rightarrow> SQLConnectionProducer \<Rightarrow> sql_world
     \<Rightarrow> (error + conf) \<times> SQLConnectionProducer \<times> sql_world"
where
  "verify E cf c w =
     (case Connection E c w of
        (Inl err, c1, w1) \<Rightarrow> (Inl (Errorf ''error verifying connection: %s'' [ArgE err]), c1, w1)
      | (Inr _, c1, w1) \<Rightarrow>
          (case db c1 of
             None \<Rightarrow> (Inl (Panic ''nil pointer dereference''), c1, w1)
           | Some h \<Rightarrow>
               (case db_PingContext E h w1 of
                  (Some err, w2) \<Rightarrow>
                    (Inl (Errorf ''error verifying connection: %s'' [ArgE err]), c1, w2)
                | (None, w2) \<Rightarrow> (Inr cf, c1, w2))))"

text \<open>Lines 53 to 61: the checks on the decoded fields.\<close>

definition url_error :: "SQLConnectionProducer \<Rightarrow> error option" where
  "url_error c =
     (let connURL = ConnectionURL c in
      if length connURL = 0 then Some (Errorf ''connection_url cannot be empty'' [])
      else if length (Username c) \<noteq> 0 \<and> length (Password c) \<noteq> 0 \<and>
              (\<not> Contains connURL ''{{username}}'' \<or> \<not> Contains connURL ''{{password}}'')
      then Some (Errorf ''connection_url must be templated if username and password are provided'' [])
      else None)"

definition Initialize ::
  "sql_env \<Rightarrow> conf \<Rightarrow> bool \<Rightarrow> SQLConnectionProducer \<Rightarrow> sql_world
     \<Rightarrow> (error + conf) \<times> SQLConnectionProducer \<times> sql_world"
where
  "Initialize E cf verifyConnection c0 w =
     (case WeakDecode E cf c0 of
        (Some err, c) \<Rightarrow> (Inl err, c, w)
      | (None, c) \<Rightarrow>
          (case url_error c of
             Some err \<Rightarrow> (Inl err, c, w)
           | None \<Rightarrow>
               let c1 = pool_defaults c;
                   (d, perr) = ParseDurationSecond E (MaxConnectionLifetimeRaw c1);
                   c2 = c1\<lparr>maxConnectionLifetime := d\<rparr>
               in
               (case perr of
                  Some err \<Rightarrow> (Inl (Errorf ''invalid max_connection_lifetime: %s'' [ArgE err]), c2, w)
                | None \<Rightarrow>
                    let c3 = c2\<lparr>Initialized := True\<rparr> in
                    if verifyConnection then verify E cf c3 w else (Inr cf, c3, w))))"

text \<open>\<^verbatim>\<open>Close\<close>: the result of closing the handle is dropped.\<close>

definition Close ::
  "sql_env \<Rightarrow> SQLConnectionProducer \<Rightarrow> sql_world \<Rightarrow> error option \<times> SQLConnectionProducer \<times> sql_world"
where
  "Close E c w =
     (let w1 = (case db c of Some h \<Rightarrow> snd (db_Close E h w) | None \<Rightarrow> w)
      in (None, c\<lparr>db := None\<rparr>, w1))"

section \<open>The connection cache (builtin/logical/database/backend.go)\<close>

text \<open>
  A \<^verbatim>\<open>dbplugin.Database\<close> in the map is an interface value: a reference to a plugin
  instance, not a copy of its state. The instances, the store and the plugin factory
  live in a world \<open>'w\<close> outside the cache; each call into them takes the world and
  returns the new one. A stored entry (\<^verbatim>\<open>*logical.StorageEntry\<close>) is an \<open>'e\<close>.
  \<open>DatabaseConfig\<close> is declared in another file of the package: the two fields this
  code reads are kept.
\<close>

type_synonym ref = nat

record DatabaseConfig =
  PluginName :: string
  ConnectionDetails :: conf

text \<open>
  Of \<^verbatim>\<open>databaseBackend\<close> the map is kept. The lock is left out: the model is of one
  call at a time, so the second look-up of \<^verbatim>\<open>GetConnection\<close> (after the lock is
  upgraded) sees the map the first one saw. The local variable \<^verbatim>\<open>db\<close> of the two
  functions is \<open>d\<close> here (\<open>db\<close> is the producer's field).
\<close>

record databaseBackend =
  connections :: "string \<rightharpoonup> ref"

record ('w, 'e) backend_env =
  storage_Get :: "string \<Rightarrow> 'w \<Rightarrow> (error + 'e option) \<times> 'w"
  DecodeJSON_config :: "'e \<Rightarrow> error + DatabaseConfig"
  PluginFactory :: "string \<Rightarrow> 'w \<Rightarrow> (error + ref) \<times> 'w"
  Database_Initialize :: "ref \<Rightarrow> conf \<Rightarrow> bool \<Rightarrow> 'w \<Rightarrow> error option \<times> 'w"
  Database_Close :: "ref \<Rightarrow> 'w \<Rightarrow> error option \<times> 'w"

definition DatabaseConfig ::
  "('w, 'e, 'x) backend_env_scheme \<Rightarrow> string \<Rightarrow> 'w \<Rightarrow> (error + DatabaseConfig) \<times> 'w"
where
  "DatabaseConfig E name w =
     (case storage_Get E (''config/'' @ name) w of
        (Inl err, w1) \<Rightarrow>
          (Inl (Errorf ''failed to read connection configuration: %s'' [ArgE err]), w1)
      | (Inr None, w1) \<Rightarrow>
          (Inl (Errorf ''failed to find entry for connection with name: %s'' [ArgS name]), w1)
      | (Inr (Some entry), w1) \<Rightarrow>
          (case DecodeJSON_config E entry of
             Inl err \<Rightarrow> (Inl err, w1)
           | Inr config \<Rightarrow> (Inr config, w1)))"

definition GetConnection ::
  "('w, 'e, 'x) backend_env_scheme \<Rightarrow> string \<Rightarrow> databaseBackend \<Rightarrow> 'w
     \<Rightarrow> (error + ref) \<times> databaseBackend \<times> 'w"
where
  "GetConnection E name b w =
     (case connections b name of
        Some d \<Rightarrow> (Inr d, b, w)
      | None \<Rightarrow>
          (case connections b name of
             Some d \<Rightarrow> (Inr d, b, w)
           | None \<Rightarrow>
               (case DatabaseConfig E name w of
                  (Inl err, w1) \<Rightarrow> (Inl err, b, w1)
                | (Inr config, w1) \<Rightarrow>
                    (case PluginFactory E (PluginName config) w1 of
                       (Inl err, w2) \<Rightarrow> (Inl err, b, w2)
                     | (Inr d, w2) \<Rightarrow>
                         (case Database_Initialize E d (ConnectionDetails config) True w2 of
                            (Some err, w3) \<Rightarrow> (Inl err, b, snd (Database_Close E d w3))
                          | (None, w3) \<Rightarrow>
                              (Inr d, b\<lparr>connections := (connections b)(name \<mapsto> d)\<rparr>, w3))))))"

definition ClearConnection ::
  "('w, 'e, 'x) backend_env_scheme \<Rightarrow> string \<Rightarrow> databaseBackend \<Rightarrow> 'w
     \<Rightarrow> error option \<times> databaseBackend \<times> 'w"
where
  "ClearConnection E name b w =
     (case connections b name of
        Some d \<Rightarrow>
          (case Database_Close E d w of
             (Some err, w1) \<Rightarrow> (Some err, b, w1)
           | (None, w1) \<Rightarrow> (None, b\<lparr>connections := (connections b)(name := None)\<rparr>, w1))
      | None \<Rightarrow> (None, b, w))"

text \<open>
  A cache whose instances are SQL connection producers: the world holds each instance's
  producer and the state of \<^verbatim>\<open>database/sql\<close>, and closing instance \<open>r\<close> is the
  producer's \<open>Close\<close>.
\<close>

definition producer_Close ::
  "sql_env \<Rightarrow> ref \<Rightarrow> (ref \<Rightarrow> SQLConnectionProducer) \<times> sql_world
     \<Rightarrow> error option \<times> (ref \<Rightarrow> SQLConnectionProducer) \<times> sql_world"
where
  "producer_Close S r pw =
     (case Close S (fst pw r) (snd pw) of (err, c, w) \<Rightarrow> (err, (fst pw)(r := c), w))"

subsection \<open>Reading a role\<close>

text \<open>
  \<open>upgradeStatements\<close> and \<open>upgradeCheck\<close> are the legacy view; \<open>empty\<close> is the zero
  value \<^verbatim>\<open>upgradeCheck{}\<close>. \<open>roleEntry\<close> and
  \<^verbatim>\<open>dbplugin.Statements\<close> are declared outside these files: the statement fields that
  \<open>Role\<close> assigns are kept, with the names the code uses, and whatever else a role
  entry holds is the record's extension.
\<close>

record dbplugin_Statements =
  CreationStatements :: string
  RevocationStatements :: string
  RollbackStatements :: string
  RenewStatements :: string

record roleEntry =
  Statements :: dbplugin_Statements

record upgradeStatements =
  CreationStatements :: string
  RevocationStatements :: string
  RollbackStatements :: string
  RenewStatements :: string

record upgradeCheck =
  Statements :: upgradeStatements

record ('w, 'e, 'r) role_env =
  role_Get :: "string \<Rightarrow> 'w \<Rightarrow> (error + 'e option) \<times> 'w"
  DecodeJSON_upgradeCheck :: "'e \<Rightarrow> error + upgradeCheck"
  DecodeJSON_roleEntry :: "'e \<Rightarrow> error + 'r roleEntry_scheme"

definition empty :: upgradeCheck where
  "empty =
     \<lparr>Statements = \<lparr>CreationStatements = [], RevocationStatements = [],
                     RollbackStatements = [], RenewStatements = []\<rparr>\<rparr>"

text \<open>
  \<open>Role\<close>. \<open>decode_role\<close> is its second half, from line 112 on: the two decodings of
  the stored entry and the override.
\<close>

definition decode_role ::
  "('w, 'e, 'r) role_env \<Rightarrow> 'e \<Rightarrow> error + 'r roleEntry_scheme"
where
  "decode_role E entry =
     (case DecodeJSON_upgradeCheck E entry of
        Inl err \<Rightarrow> Inl err
      | Inr upgradeCh \<Rightarrow>
          (case DecodeJSON_roleEntry E entry of
             Inl err \<Rightarrow> Inl err
           | Inr result \<Rightarrow>
               Inr (if upgradeCh \<noteq> empty
                    then result\<lparr>roleEntry.Statements :=
                           \<lparr>dbplugin_Statements.CreationStatements =
                              CreationStatements (Statements upgradeCh),
                            dbplugin_Statements.RevocationStatements =
                              RevocationStatements (Statements upgradeCh),
                            dbplugin_Statements.RollbackStatements =
                              RollbackStatements (Statements upgradeCh),
                            dbplugin_Statements.RenewStatements =
                              RenewStatements (Statements upgradeCh)\<rparr>\<rparr>
                    else result)))"

definition Role ::
  "('w, 'e, 'r) role_env \<Rightarrow> string \<Rightarrow> 'w \<Rightarrow> (error + 'r roleEntry_scheme option) \<times> 'w"
where
  "Role E roleName w =
     (case role_Get E (''role/'' @ roleName) w of
        (Inl err, w1) \<Rightarrow> (Inl err, w1)
      | (Inr None, w1) \<Rightarrow> (Inr None, w1)
      | (Inr (Some entry), w1) \<Rightarrow>
          (case decode_role E entry of
             Inl err \<Rightarrow> (Inl err, w1)
           | Inr result \<Rightarrow> (Inr (Some result), w1)))"

section \<open>Directory configuration (helper/ldap/config.go)\<close>

text \<open>
  \<^verbatim>\<open>fieldData.Get(k).(T)\<close> reads field \<open>k\<close> at the type its schema gives it (the
  schema's default when the request has no value): the field data is the record of
  these values. Go compares strings with \<^verbatim>\<open><\<close> byte by byte.
\<close>

record FieldData =
  url :: string
  userattr :: string
  userdn :: string
  groupdn :: string
  groupfilter :: string
  groupattr :: string
  upndomain :: string
  certificate :: string
  insecure_tls :: bool
  tls_min_version :: string
  tls_max_version :: string
  starttls :: bool
  binddn :: string
  bindpass :: string
  deny_null_bind :: bool
  discoverdn :: bool

record Configuration =
  Url :: string
  UserDN :: string
  GroupDN :: string
  GroupFilter :: string
  GroupAttr :: string
  UPNDomain :: string
  UserAttr :: string
  Certificate :: string
  InsecureTLS :: bool
  StartTLS :: bool
  BindDN :: string
  BindPassword :: string
  DenyNullBind :: bool
  DiscoverDN :: bool
  TLSMinVersion :: string
  TLSMaxVersion :: string

fun string_less :: "string \<Rightarrow> string \<Rightarrow> bool" where
  "string_less [] [] = False"
| "string_less [] (y # ys) = True"
| "string_less (x # xs) [] = False"
| "string_less (x # xs) (y # ys) =
     ((of_char x :: nat) < of_char y \<or> (x = y \<and> string_less xs ys))"

text \<open>
  \<^verbatim>\<open>tlsutil.TLSLookup\<close> is a table of another package, from version identifiers to the
  \<^verbatim>\<open>uint16\<close> protocol versions of \<^verbatim>\<open>crypto/tls\<close>: a parameter, as are the template
  parser, the PEM and certificate parsers and \<^verbatim>\<open>strings.ToLower\<close>. \<^verbatim>\<open>pem.Decode\<close>
  returns no block, or a block with its type and bytes.
\<close>

record tlsutil =
  TLSLookup :: "string \<rightharpoonup> 16 word"

record config_env = tlsutil +
  ToLower :: "string \<Rightarrow> string"
  template_Parse :: "string \<Rightarrow> error option"
  pem_Decode :: "string \<Rightarrow> (string \<times> string) option"
  ParseCertificate :: "string \<Rightarrow> error option"

text \<open>Lines 33 to 42 and 51 to 63: the two fields that are validated before they are stored.\<close>

definition groupfilter_error :: "'x config_env_scheme \<Rightarrow> string \<Rightarrow> error option" where
  "groupfilter_error E gf =
     (if gf \<noteq> [] then
        (case template_Parse E gf of
           Some err \<Rightarrow> Some (Errorf ''invalid groupfilter (%v)'' [ArgE err])
         | None \<Rightarrow> None)
      else None)"

definition certificate_error :: "'x config_env_scheme \<Rightarrow> string \<Rightarrow> error option" where
  "certificate_error E cert =
     (if cert \<noteq> [] then
        (case pem_Decode E cert of
           None \<Rightarrow> Some (Errorf ''failed to decode PEM block in the certificate'' [])
         | Some (block_Type, block_Bytes) \<Rightarrow>
             if block_Type \<noteq> ''CERTIFICATE''
             then Some (Errorf ''failed to decode PEM block in the certificate'' [])
             else (case ParseCertificate E block_Bytes of
                     Some err \<Rightarrow> Some (Errorf ''failed to parse certificate %s'' [ArgE err])
                   | None \<Rightarrow> None))
      else None)"

text \<open>Lines 68 to 90: the checks on the two protocol versions, in the code's order.\<close>

definition tls_version_error :: "'x config_env_scheme \<Rightarrow> string \<Rightarrow> string \<Rightarrow> error option" where
  "tls_version_error E tlsMin tlsMax =
     (if tlsMin = [] then Some (Errorf ''failed to get 'tls_min_version' value'' [])
      else if TLSLookup E tlsMin = None then Some (Errorf (''invalid 'tls_min_version'' @ [CHR 0x27]) [])
      else if tlsMax = [] then Some (Errorf ''failed to get 'tls_max_version' value'' [])
      else if TLSLookup E tlsMax = None then Some (Errorf (''invalid 'tls_max_version'' @ [CHR 0x27]) [])
      else if string_less tlsMax tlsMin
      then Some (Errorf (CHR 0x27 # ''tls_max_version' must be greater than or equal to 'tls_min_version'' @ [CHR 0x27]) [])
      else None)"

text \<open>
  \<open>NewConfiguration\<close>. A field the code stores only when it is not the zero value of its
  type (\<^verbatim>\<open>if userdn != "" { conf.UserDN = userdn }\<close>) is the value read, since the
  configuration starts from zero values; the two fields that go through
  \<^verbatim>\<open>strings.ToLower\<close> keep the test. The first failing check returns, in the code's
  order: group filter, certificate, protocol versions.
\<close>

definition NewConfiguration :: "'x config_env_scheme \<Rightarrow> FieldData \<Rightarrow> error + Configuration" where
  "NewConfiguration E fieldData =
     (case groupfilter_error E (groupfilter fieldData) of
        Some err \<Rightarrow> Inl err
      | None \<Rightarrow>
     (case certificate_error E (certificate fieldData) of
        Some err \<Rightarrow> Inl err
      | None \<Rightarrow>
     (case tls_version_error E (tls_min_version fieldData) (tls_max_version fieldData) of
        Some err \<Rightarrow> Inl err
      | None \<Rightarrow>
          Inr \<lparr>Url = (if url fieldData \<noteq> [] then ToLower E (url fieldData) else []),
               UserDN = userdn fieldData,
               GroupDN = groupdn fieldData,
               GroupFilter = groupfilter fieldData,
               GroupAttr = groupattr fieldData,
               UPNDomain = upndomain fieldData,
               UserAttr = (if userattr fieldData \<noteq> [] then ToLower E (userattr fieldData) else []),
               Certificate = certificate fieldData,
               InsecureTLS = insecure_tls fieldData,
               StartTLS = starttls fieldData,
               BindDN = binddn fieldData,
               BindPassword = bindpass fieldData,
               DenyNullBind = deny_null_bind fieldData,
               DiscoverDN = discoverdn fieldData,
               TLSMinVersion = tls_min_version fieldData,
               TLSMaxVersion = tls_max_version fieldData\<rparr>)))"

section \<open>The directory client (helper/activedirectory/client.go)\<close>

text \<open>
  The client's \<^verbatim>\<open>Configuration\<close> is declared in another file of its package; the code
  reads the fields \<open>Url\<close>, \<open>StartTLS\<close>, \<open>TLSMinVersion\<close>, \<open>TLSMaxVersion\<close>,
  \<open>InsecureTLS\<close> and \<open>Certificate\<close> of it, which the record above has.

  The network and the directory server are outside the code. Their state is the list of
  the calls made so far, oldest first, and the number of connections dialled; a
  \<^verbatim>\<open>*ldap.Conn\<close> is the number of the dial that made it. \<^verbatim>\<open>net.JoinHostPort(host, port)\<close>
  is kept as the two strings. An \<^verbatim>\<open>ldap.PartialAttribute\<close> is the pair of its type and
  its values.
\<close>

type_synonym conn = nat

record URL =
  Scheme :: string
  Host :: string

record tls_Config =
  ServerName :: string
  MinVersion :: "16 word"
  MaxVersion :: "16 word"
  InsecureSkipVerify :: bool
  RootCAs :: "string option"

record SearchRequest =
  BaseDN :: string
  Scope :: int
  Filter :: string

record ModifyRequest =
  DN :: string
  ReplaceAttributes :: "(string \<times> string list) list"

datatype ldap_call =
    ldap_Dial string string string
  | ldap_DialTLS string string string tls_Config
  | conn_StartTLS conn tls_Config
  | conn_Search conn SearchRequest
  | conn_Modify conn ModifyRequest
  | conn_Close conn

record ldap_world =
  ldap_calls :: "ldap_call list"
  dialed :: nat

text \<open>
  The parameters: the pure library functions (\<^verbatim>\<open>url.Parse\<close>, \<^verbatim>\<open>net.SplitHostPort\<close>,
  \<^verbatim>\<open>AppendCertsFromPEM\<close>, the UTF-16 encoder
  \<^verbatim>\<open>unicode.UTF16(unicode.LittleEndian, unicode.IgnoreBOM).NewEncoder().String\<close>) and the
  outcome of each network call, which may depend on the calls so far.
\<close>

record client_env = tlsutil +
  url_Parse :: "string \<Rightarrow> error + URL"
  SplitHostPort :: "string \<Rightarrow> error + string \<times> string"
  AppendCertsFromPEM :: "string \<Rightarrow> bool"
  UTF16LE_String :: "string \<Rightarrow> error + string"
  dial_err :: "ldap_call list \<Rightarrow> string \<Rightarrow> string \<Rightarrow> string \<Rightarrow> error option"
  dialTLS_err :: "ldap_call list \<Rightarrow> string \<Rightarrow> string \<Rightarrow> string \<Rightarrow> tls_Config \<Rightarrow> error option"
  startTLS_err :: "ldap_call list \<Rightarrow> conn \<Rightarrow> tls_Config \<Rightarrow> error option"
  search_result :: "ldap_call list \<Rightarrow> conn \<Rightarrow> SearchRequest \<Rightarrow> error + Entry list"
  modify_err :: "ldap_call list \<Rightarrow> conn \<Rightarrow> ModifyRequest \<Rightarrow> error option"

definition ldap_called :: "ldap_call \<Rightarrow> ldap_world \<Rightarrow> ldap_world" where
  "ldap_called ev w = w\<lparr>ldap_calls := ldap_calls w @ [ev]\<rparr>"

definition Dial ::
  "'x client_env_scheme \<Rightarrow> string \<Rightarrow> string \<Rightarrow> string \<Rightarrow> ldap_world \<Rightarrow> (error + conn) \<times> ldap_world"
where
  "Dial E network host port w =
     (case dial_err E (ldap_calls w) network host port of
        Some err \<Rightarrow> (Inl err, ldap_called (ldap_Dial network host port) w)
      | None \<Rightarrow>
          (Inr (dialed w), (ldap_called (ldap_Dial network host port) w)\<lparr>dialed := Suc (dialed w)\<rparr>))"

definition DialTLS ::
  "'x client_env_scheme \<Rightarrow> string \<Rightarrow> string \<Rightarrow> string \<Rightarrow> tls_Config \<Rightarrow> ldap_world
     \<Rightarrow> (error + conn) \<times> ldap_world"
where
  "DialTLS E network host port cfg w =
     (case dialTLS_err E (ldap_calls w) network host port cfg of
        Some err \<Rightarrow> (Inl err, ldap_called (ldap_DialTLS network host port cfg) w)
      | None \<Rightarrow>
          (Inr (dialed w),
           (ldap_called (ldap_DialTLS network host port cfg) w)\<lparr>dialed := Suc (dialed w)\<rparr>))"

text \<open>\<open>getTLSConfig\<close>. The pool of root certificates is the PEM text it was made from.\<close>

definition getTLSConfig :: "'x client_env_scheme \<Rightarrow> Configuration \<Rightarrow> string \<Rightarrow> error + tls_Config" where
  "getTLSConfig E conf host =
     (let tlsConfig = \<lparr>ServerName = host, MinVersion = 0, MaxVersion = 0,
                       InsecureSkipVerify = False, RootCAs = None\<rparr>
      in
      if TLSMinVersion conf \<noteq> [] \<and> TLSLookup E (TLSMinVersion conf) = None
      then Inl (Errorf ''invalid 'tls_min_version' in config'' [])
      else
        let tlsConfig =
              (case (if TLSMinVersion conf \<noteq> [] then TLSLookup E (TLSMinVersion conf) else None) of
                 Some tlsMinVersion \<Rightarrow> tlsConfig\<lparr>MinVersion := tlsMinVersion\<rparr>
               | None \<Rightarrow> tlsConfig)
        in
        if TLSMaxVersion conf \<noteq> [] \<and> TLSLookup E (TLSMaxVersion conf) = None
        then Inl (Errorf ''invalid 'tls_max_version' in config'' [])
        else
          let tlsConfig =
                (case (if TLSMaxVersion conf \<noteq> [] then TLSLookup E (TLSMaxVersion conf) else None) of
                   Some tlsMaxVersion \<Rightarrow> tlsConfig\<lparr>MaxVersion := tlsMaxVersion\<rparr>
                 | None \<Rightarrow> tlsConfig);
              tlsConfig = (if InsecureTLS conf then tlsConfig\<lparr>InsecureSkipVerify := True\<rparr> else tlsConfig)
          in
          if Certificate conf \<noteq> [] then
            (if \<not> AppendCertsFromPEM E (Certificate conf)
             then Inl (Errorf ''could not append CA certificate'' [])
             else Inr (tlsConfig\<lparr>RootCAs := Some (Certificate conf)\<rparr>))
          else Inr tlsConfig)"

text \<open>
  \<open>connect\<close>. When \<^verbatim>\<open>net.SplitHostPort\<close> fails it returns two empty strings, so the
  port stays empty and the host becomes the URL's host.
\<close>

definition connect ::
  "'x client_env_scheme \<Rightarrow> Configuration \<Rightarrow> string \<Rightarrow> ldap_world \<Rightarrow> (error + conn) \<times> ldap_world"
where
  "connect E conf uut w =
     (case url_Parse E uut of
        Inl err \<Rightarrow> (Inl err, w)
      | Inr u \<Rightarrow>
          let (host, port) =
                (case SplitHostPort E (Host u) of
                   Inl err \<Rightarrow> (Host u, [])
                 | Inr (h, p) \<Rightarrow> (h, p))
          in
          if Scheme u = ''ldap'' then
            (let port = (if port = [] then ''389'' else port) in
             case Dial E ''tcp'' host port w of
               (Inl err, w1) \<Rightarrow> (Inl err, w1)
             | (Inr c, w1) \<Rightarrow>
                 if StartTLS conf then
                   (case getTLSConfig E conf host of
                      Inl err \<Rightarrow> (Inl err, w1)
                    | Inr tlsConfig \<Rightarrow>
                        (case startTLS_err E (ldap_calls w1) c tlsConfig of
                           Some err \<Rightarrow> (Inl err, ldap_called (conn_StartTLS c tlsConfig) w1)
                         | None \<Rightarrow> (Inr c, ldap_called (conn_StartTLS c tlsConfig) w1)))
                 else (Inr c, w1))
          else if Scheme u = ''ldaps'' then
            (let port = (if port = [] then ''636'' else port) in
             case getTLSConfig E conf host of
               Inl err \<Rightarrow> (Inl err, w)
             | Inr tlsConfig \<Rightarrow>
                 (case DialTLS E ''tcp'' host port tlsConfig w of
                    (Inl err, w1) \<Rightarrow> (Inl err, w1)
                  | (Inr c, w1) \<Rightarrow> (Inr c, w1)))
          else (Inl (Errorf ''invalid LDAP scheme in url %q'' [ArgHostPort host port]), w))"

text \<open>\<^verbatim>\<open>strings.Split(s, sep)\<close> for a separator of one byte, as the code calls it.\<close>

fun Split :: "string \<Rightarrow> char \<Rightarrow> string list" where
  "Split [] sep = [[]]"
| "Split (c # s) sep =
     (if c = sep then [] # Split s sep
      else (case Split s sep of
              r # rs \<Rightarrow> (c # r) # rs
            | [] \<Rightarrow> [[c]]))"

text \<open>
  \<open>getConnection\<close>: the loop over the URLs is \<open>tryUrls\<close>, with the errors collected so
  far (none: the nil \<^verbatim>\<open>*multierror.Error\<close>). After the loop the code calls
  \<^verbatim>\<open>retErr.Error()\<close> for the log, which panics on nil.
\<close>

fun tryUrls ::
  "'x client_env_scheme \<Rightarrow> Configuration \<Rightarrow> string list \<Rightarrow> error list \<Rightarrow> ldap_world
     \<Rightarrow> (error + conn) \<times> ldap_world"
where
  "tryUrls E conf [] retErr w =
     (if retErr = [] then (Inl (Panic ''nil pointer dereference''), w)
      else (Inl (MultiError retErr), w))"
| "tryUrls E conf (uut # urls) retErr w =
     (case connect E conf uut w of
        (Inl err, w1) \<Rightarrow>
          tryUrls E conf urls (retErr @ [Errorf ''error parsing url %q: %s'' [ArgS uut, ArgE err]]) w1
      | (Inr c, w1) \<Rightarrow> (Inr c, w1))"

definition getConnection ::
  "'x client_env_scheme \<Rightarrow> Configuration \<Rightarrow> ldap_world \<Rightarrow> (error + conn) \<times> ldap_world"
where
  "getConnection E conf w = tryUrls E conf (Split (Url conf) CHR '','') [] w"

text \<open>\<open>Search\<close>: the deferred \<^verbatim>\<open>conn.Close()\<close> runs on both ways out.\<close>

definition Search ::
  "'x client_env_scheme \<Rightarrow> Configuration \<Rightarrow> string \<Rightarrow> string \<Rightarrow> ldap_world
     \<Rightarrow> (error + Entry list) \<times> ldap_world"
where
  "Search E conf baseDN filter' w =
     (let req = \<lparr>BaseDN = baseDN, Scope = 2, Filter = filter'\<rparr> in
      case getConnection E conf w of
        (Inl err, w1) \<Rightarrow> (Inl err, w1)
      | (Inr c, w1) \<Rightarrow>
          (search_result E (ldap_calls w1) c req,
           ldap_called (conn_Close c) (ldap_called (conn_Search c req) w1)))"

text \<open>\<open>UpdatePassword\<close>. The new password goes between two double quotes (byte 0x22).\<close>

definition UpdatePassword ::
  "'x client_env_scheme \<Rightarrow> Configuration \<Rightarrow> string \<Rightarrow> string \<Rightarrow> string \<Rightarrow> ldap_world
     \<Rightarrow> error option \<times> ldap_world"
where
  "UpdatePassword E conf baseDN filter' newPassword w =
     (case Search E conf baseDN filter' w of
        (Inl err, w1) \<Rightarrow> (Some err, w1)
      | (Inr entries, w1) \<Rightarrow>
          if length entries \<noteq> 1
          then (Some (Errorf ''password filter of %s doesn't match just one entry: %s''
                        [ArgS filter', ArgEntries entries]), w1)
          else
            (case UTF16LE_String E ([CHR 0x22] @ newPassword @ [CHR 0x22]) of
               Inl err \<Rightarrow> (Some err, w1)
             | Inr pwdEncoded \<Rightarrow>
                 let passReq = \<lparr>DN = Entry.DN (entries ! 0),
                                ReplaceAttributes = [(''unicodePwd'', [pwdEncoded])]\<rparr>
                 in
                 (case getConnection E conf w1 of
                    (Inl err, w2) \<Rightarrow> (Some err, w2)
                  | (Inr c, w2) \<Rightarrow>
                      (modify_err E (ldap_calls w2) c passReq,
                       ldap_called (conn_Close c) (ldap_called (conn_Modify c passReq) w2)))))"

section \<open>Derived notions used in the statements\<close>

text \<open>
  The configuration \<open>cf\<close> passes the validation of \<open>Initialize\<close> (lines 48 to 86) on the
  producer \<open>c0\<close>: it decodes, the checks on the connection string pass and the maximum
  lifetime parses.
\<close>

definition validated :: "sql_env \<Rightarrow> conf \<Rightarrow> SQLConnectionProducer \<Rightarrow> bool" where
  "validated E cf c0 =
     (fst (WeakDecode E cf c0) = None \<and> url_error (snd (WeakDecode E cf c0)) = None \<and>
      snd (ParseDurationSecond E
             (MaxConnectionLifetimeRaw (pool_defaults (snd (WeakDecode E cf c0))))) = None)"

text \<open>
  The enumerated ordering of the protocol versions is the order of their \<^verbatim>\<open>uint16\<close>
  values. A table, given as the list of its entries, agrees with it when its identifiers
  compare as strings the way their versions compare as numbers.
\<close>

definition version_order_agrees :: "(string \<times> 16 word) list \<Rightarrow> bool" where
  "version_order_agrees tbl =
     list_all (\<lambda>(a, va). list_all (\<lambda>(b, vb). string_less a b = (va < vb)) tbl) tbl"

text \<open>
  The host and the port that \<open>connect\<close> works with, for a parsed URL (lines 145 to 150).
\<close>

definition host_port :: "'x client_env_scheme \<Rightarrow> URL \<Rightarrow> string \<times> string" where
  "host_port E u =
     (case SplitHostPort E (Host u) of Inl err \<Rightarrow> (Host u, []) | Inr (h, p) \<Rightarrow> (h, p))"

text \<open>
  Tried one after the other from the state \<open>w\<close>, every URL of the list fails: the
  result is the list of the failures as \<open>getConnection\<close> wraps them, in the order of the
  URLs, and the state after the last attempt. \<open>None\<close> when some URL connects.
\<close>

fun fail_run ::
  "'x client_env_scheme \<Rightarrow> Configuration \<Rightarrow> string list \<Rightarrow> ldap_world
     \<Rightarrow> (error list \<times> ldap_world) option"
where
  "fail_run E conf [] w = Some ([], w)"
| "fail_run E conf (uut # urls) w =
     (case connect E conf uut w of
        (Inl err, w1) \<Rightarrow>
          (case fail_run E conf urls w1 of
             Some (errs, w2) \<Rightarrow>
               Some (Errorf ''error parsing url %q: %s'' [ArgS uut, ArgE err] # errs, w2)
           | None \<Rightarrow> None)
      | (Inr c, w1) \<Rightarrow> None)"

text \<open>The parts of a split, put together again with the separator between them.\<close>

fun Join :: "string list \<Rightarrow> char \<Rightarrow> string" where
  "Join [] sep = []"
| "Join [x] sep = x"
| "Join (x # y # ys) sep = x @ sep # Join (y # ys) sep"

text \<open>The modify requests among the calls, with the connection each was sent on.\<close>

primrec modify_requests :: "ldap_call list \<Rightarrow> (conn \<times> ModifyRequest) list" where
  "modify_requests [] = []"
| "modify_requests (ev # evs) =
     (case ev of
        conn_Modify c req \<Rightarrow> (c, req) # modify_requests evs
      | _ \<Rightarrow> modify_requests evs)"

section \<open>Concrete environments\<close>

text \<open>
  The theorems below hold for every environment. To run the model on concrete inputs,
  here is a small one for each component.
\<close>

subsection \<open>A SQL library\<close>

text \<open>
  The decoder copies the three keys it knows; every duration parses to zero;
  \<^verbatim>\<open>sql.Open\<close> succeeds; a ping fails when \<open>ping_fails\<close>; closing a handle always
  reports an error.
\<close>

definition example_decode :: "conf \<Rightarrow> SQLConnectionProducer \<Rightarrow> error option \<times> SQLConnectionProducer" where
  "example_decode cf c =
     (None,
      c\<lparr>ConnectionURL :=
          (case cf ''connection_url'' of Some (IStr s) \<Rightarrow> s | _ \<Rightarrow> ConnectionURL c),
        MaxOpenConnections :=
          (case cf ''max_open_connections'' of Some (IInt n) \<Rightarrow> n | _ \<Rightarrow> MaxOpenConnections c),
        MaxIdleConnections :=
          (case cf ''max_idle_connections'' of Some (IInt n) \<Rightarrow> n | _ \<Rightarrow> MaxIdleConnections c)\<rparr>)"

definition example_sql_env :: "bool \<Rightarrow> sql_env" where
  "example_sql_env ping_fails =
     \<lparr>WeakDecode = example_decode,
      ParseDurationSecond = (\<lambda>raw. (0, None)),
      open_err = (\<lambda>cs t s. None),
      ping_err = (\<lambda>cs h. if ping_fails then Some ''bad connection'' else None),
      close_err = (\<lambda>cs h. Some ''close failed'')\<rparr>"

definition new_producer :: "string \<Rightarrow> SQLConnectionProducer" where
  "new_producer t =
     \<lparr>ConnectionURL = [], MaxOpenConnections = 0, MaxIdleConnections = 0,
      MaxConnectionLifetimeRaw = None, Username = [], Password = [], Type = t,
      maxConnectionLifetime = 0, Initialized = False, db = None\<rparr>"

definition no_calls :: sql_world where
  "no_calls = \<lparr>calls = [], opened = 0\<rparr>"

definition example_conf :: "int \<Rightarrow> int \<Rightarrow> conf" where
  "example_conf mo mi =
     [''connection_url'' \<mapsto> IStr ''postgres://h/d'',
      ''max_open_connections'' \<mapsto> IInt mo,
      ''max_idle_connections'' \<mapsto> IInt mi]"

text \<open>An initialized producer that holds handle 0.\<close>

definition pooled_producer :: SQLConnectionProducer where
  "pooled_producer =
     \<lparr>ConnectionURL = ''postgresql://h/d?sslmode=disable'', MaxOpenConnections = 5,
      MaxIdleConnections = 3, MaxConnectionLifetimeRaw = Some (IStr ''30s''), Username = [],
      Password = [], Type = ''mssql'', maxConnectionLifetime = 30000000000, Initialized = True,
      db = Some 0\<rparr>"

subsection \<open>A store and a plugin\<close>

text \<open>
  The world is the log of the calls. The store holds one connection configuration,
  under \<open>config/pg\<close>; the factory makes instance 7; \<open>Initialize\<close> of an instance fails
  when \<open>init_fails\<close> and its \<open>Close\<close> fails when \<open>close_fails\<close>.
\<close>

definition example_backend_env :: "bool \<Rightarrow> bool \<Rightarrow> (string list, string) backend_env" where
  "example_backend_env init_fails close_fails =
     \<lparr>storage_Get =
        (\<lambda>k w. (if k = ''config/pg'' then Inr (Some ''postgresql-database-plugin'') else Inr None,
                 w @ [''Get'', k])),
      DecodeJSON_config = (\<lambda>e. Inr \<lparr>PluginName = e, ConnectionDetails = Map.empty\<rparr>),
      PluginFactory = (\<lambda>n w. (Inr 7, w @ [''PluginFactory'', n])),
      Database_Initialize =
        (\<lambda>d cd v w. (if init_fails then Some (Ext ''connection refused'') else None,
                      w @ [''Initialize''])),
      Database_Close =
        (\<lambda>d w. (if close_fails then Some (Ext ''close failed'') else None, w @ [''Close'']))\<rparr>"

definition empty_backend :: databaseBackend where
  "empty_backend = \<lparr>connections = Map.empty\<rparr>"

definition pg_backend :: databaseBackend where
  "pg_backend = \<lparr>connections = [''pg'' \<mapsto> 7]\<rparr>"

subsection \<open>Stored role records\<close>

text \<open>
  A stored record is a JSON object of strings and objects. The legacy view is read as
  the struct tags of \<open>upgradeCheck\<close> and \<open>upgradeStatements\<close> say; the canonical view is
  read under the same keys without the misspelling (\<open>statements\<close>,
  \<open>creation_statements\<close>). A missing key leaves the zero value.
\<close>

datatype json = JString string | JObject "(string \<times> json) list"

definition json_object :: "json \<Rightarrow> string \<Rightarrow> json" where
  "json_object j k =
     (case j of
        JObject kvs \<Rightarrow> (case map_of kvs k of Some v \<Rightarrow> v | None \<Rightarrow> JObject [])
      | JString s \<Rightarrow> JObject [])"

definition json_string :: "json \<Rightarrow> string \<Rightarrow> string" where
  "json_string j k =
     (case j of
        JObject kvs \<Rightarrow> (case map_of kvs k of Some (JString s) \<Rightarrow> s | _ \<Rightarrow> [])
      | JString s \<Rightarrow> [])"

definition example_role_env :: "(unit, json, unit) role_env" where
  "example_role_env =
     \<lparr>role_Get = (\<lambda>k w. (Inr None, w)),
      DecodeJSON_upgradeCheck =
        (\<lambda>j. Inr \<lparr>Statements =
                    \<lparr>CreationStatements = json_string (json_object j ''statments'') ''creation_statments'',
                     RevocationStatements = json_string (json_object j ''statments'') ''revocation_statements'',
                     RollbackStatements = json_string (json_object j ''statments'') ''rollback_statements'',
                     RenewStatements = json_string (json_object j ''statments'') ''renew_statements''\<rparr>\<rparr>),
      DecodeJSON_roleEntry =
        (\<lambda>j. Inr \<lparr>roleEntry.Statements =
                    \<lparr>dbplugin_Statements.CreationStatements =
                       json_string (json_object j ''statements'') ''creation_statements'',
                     dbplugin_Statements.RevocationStatements =
                       json_string (json_object j ''statements'') ''revocation_statements'',
                     dbplugin_Statements.RollbackStatements =
                       json_string (json_object j ''statements'') ''rollback_statements'',
                     dbplugin_Statements.RenewStatements =
                       json_string (json_object j ''statements'') ''renew_statements''\<rparr>\<rparr>)\<rparr>"

definition legacy_record :: json where
  "legacy_record =
     JObject [(''statments'',
               JObject [(''creation_statments'', JString ''CREATE ROLE r''),
                        (''revocation_statements'', JString ''DROP ROLE r'')])]"

definition canonical_record :: json where
  "canonical_record =
     JObject [(''statements'',
               JObject [(''creation_statements'', JString ''CREATE ROLE r''),
                        (''revocation_statements'', JString ''DROP ROLE r'')])]"

subsection \<open>A directory configuration\<close>

text \<open>
  The table holds three identifiers with the version numbers of \<^verbatim>\<open>crypto/tls\<close>; the
  template parser rejects \<open>{{\<close>; there is no PEM block in any text.
\<close>

definition example_versions :: "(string \<times> 16 word) list" where
  "example_versions = [(''tls10'', 0x0301), (''tls11'', 0x0302), (''tls12'', 0x0303)]"

definition example_config_env :: config_env where
  "example_config_env =
     \<lparr>TLSLookup = map_of example_versions,
      ToLower = (\<lambda>s. s),
      template_Parse = (\<lambda>s. if s = ''{{'' then Some (Ext ''unclosed action'') else None),
      pem_Decode = (\<lambda>s. None),
      ParseCertificate = (\<lambda>s. None)\<rparr>"

definition example_fields :: "string \<Rightarrow> string \<Rightarrow> FieldData" where
  "example_fields tlsMin tlsMax =
     \<lparr>url = ''ldap://127.0.0.1'', userattr = ''cn'', userdn = [], groupdn = [],
      groupfilter = [], groupattr = [], upndomain = [], certificate = [],
      insecure_tls = False, tls_min_version = tlsMin, tls_max_version = tlsMax,
      starttls = False, binddn = [], bindpass = [], deny_null_bind = True,
      discoverdn = False\<rparr>"

subsection \<open>A directory\<close>

text \<open>
  URLs are of the form \<open>scheme://host\<close> or \<open>scheme://host:port\<close>; the host \<open>down\<close> refuses
  every connection; the directory holds \<open>alice\<close> and \<open>bob\<close>; the encoder is UTF-16LE on
  ASCII text (each byte followed by a zero byte).
\<close>

definition example_url_Parse :: "string \<Rightarrow> error + URL" where
  "example_url_Parse s =
     (case Split s CHR ''/'' of
        [sch, [], h] \<Rightarrow> Inr \<lparr>Scheme = butlast sch, Host = h\<rparr>
      | _ \<Rightarrow> Inl (Ext ''parse error''))"

definition example_SplitHostPort :: "string \<Rightarrow> error + string \<times> string" where
  "example_SplitHostPort s =
     (case Split s CHR '':'' of
        [h, p] \<Rightarrow> Inr (h, p)
      | _ \<Rightarrow> Inl (Ext ''missing port in address''))"

definition alice :: Entry where
  "alice = \<lparr>Entry.DN = ''cn=alice,dc=example,dc=com'', Attributes = []\<rparr>"

definition bob :: Entry where
  "bob = \<lparr>Entry.DN = ''cn=bob,dc=example,dc=com'', Attributes = []\<rparr>"

definition example_client_env :: client_env where
  "example_client_env =
     \<lparr>TLSLookup = map_of example_versions,
      url_Parse = example_url_Parse,
      SplitHostPort = example_SplitHostPort,
      AppendCertsFromPEM = (\<lambda>pem. True),
      UTF16LE_String = (\<lambda>s. Inr (concat (map (\<lambda>c. [c, CHR 0x00]) s))),
      dial_err = (\<lambda>cs n h p. if h = ''down'' then Some (Ext ''connection refused'') else None),
      dialTLS_err = (\<lambda>cs n h p t. if h = ''down'' then Some (Ext ''connection refused'') else None),
      startTLS_err = (\<lambda>cs c t. None),
      search_result =
        (\<lambda>cs c req. Inr (if Filter req = ''(cn=alice)'' then [alice]
                          else if Filter req = ''(cn=*)'' then [alice, bob] else [])),
      modify_err = (\<lambda>cs c req. None)\<rparr>"

definition example_Configuration :: "string \<Rightarrow> Configuration" where
  "example_Configuration u =
     \<lparr>Url = u, UserDN = [], GroupDN = [], GroupFilter = [], GroupAttr = [], UPNDomain = [],
      UserAttr = ''cn'', Certificate = [], InsecureTLS = False, StartTLS = False, BindDN = [],
      BindPassword = [], DenyNullBind = True, DiscoverDN = False,
      TLSMinVersion = ''tls12'', TLSMaxVersion = ''tls12''\<rparr>"

definition example_tls_Config :: "string \<Rightarrow> tls_Config" where
  "example_tls_Config h =
     \<lparr>ServerName = h, MinVersion = 0x0303, MaxVersion = 0x0303, InsecureSkipVerify = False,
      RootCAs = None\<rparr>"

definition no_ldap_calls :: ldap_world where
  "no_ldap_calls = \<lparr>ldap_calls = [], dialed = 0\<rparr>"

section \<open>Properties of the SQL connection producer\<close>

lemmas sql_defs =
  Initialize_def verify_def url_error_def pool_defaults_def Connection_def reopen_def
  sql_Open_call_def db_PingContext_def db_Close_def called_def dbType_of_def conn_of_def Close_def

lemmas example_sql_defs =
  example_sql_env_def example_decode_def new_producer_def no_calls_def example_conf_def

text \<open>The two string tests are the library's: a prefix, and an occurrence of one byte.\<close>

lemma HasPrefix_prefix: "HasPrefix s p = prefix p s"
  by (induction s p rule: HasPrefix.induct) auto

lemma Contains_char: "Contains s [c] = (c \<in> set s)"
proof (induction s)
  case Nil
  show ?case by simp
next
  case (Cons a s)
  have "HasPrefix (a # s) [c] = (a = c)" by (cases s) auto
  with Cons show ?case by auto
qed

lemma conn_of_spec:
  "conn_of c =
     (if prefix ''postgres://'' (ConnectionURL c) \<or> prefix ''postgresql://'' (ConnectionURL c)
      then (if CHR ''?'' \<in> set (ConnectionURL c) then ConnectionURL c @ ''&timezone=utc''
            else ConnectionURL c @ ''?timezone=utc'')
      else ConnectionURL c)"
  unfolding conn_of_def Let_def HasPrefix_prefix Contains_char ..

text \<open>\<open>Connection\<close> and the verification write no field but \<open>db\<close>.\<close>

lemma Connection_fields:
  "Connection E c w = (r, c', w') \<Longrightarrow>
     MaxOpenConnections c' = MaxOpenConnections c \<and> MaxIdleConnections c' = MaxIdleConnections c \<and>
     Initialized c' = Initialized c"
  by (auto simp: Connection_def reopen_def split: if_splits option.splits prod.splits sum.splits)

lemma verify_fields:
  assumes "verify E cf c w = (r, c', w')"
  shows "MaxOpenConnections c' = MaxOpenConnections c \<and> MaxIdleConnections c' = MaxIdleConnections c \<and>
     Initialized c' = Initialized c"
proof -
  obtain r1 c1 w1 where k: "Connection E c w = (r1, c1, w1)" by (cases "Connection E c w") auto
  from assms k have "c' = c1"
    by (auto simp: verify_def split: sum.splits option.splits prod.splits)
  with Connection_fields[OF k] show ?thesis by simp
qed

text \<open>
  A \<open>Connection\<close> that returns a handle has stored it, so the ping of the verification
  never meets a nil handle.
\<close>

lemma Connection_Inr_db: "Connection E c w = (Inr h, c', w') \<Longrightarrow> db c' = Some h"
  by (auto simp: Connection_def reopen_def sql_Open_call_def db_PingContext_def
      split: if_splits option.splits prod.splits sum.splits)

lemma verify_no_panic: "fst (verify E cf c w) \<noteq> Inl (Panic m)"
proof -
  obtain r c1 w1 where k: "Connection E c w = (r, c1, w1)" by (cases "Connection E c w") auto
  show ?thesis
  proof (cases r)
    case (Inl err)
    with k show ?thesis by (simp add: verify_def)
  next
    case (Inr h)
    with k Connection_Inr_db[of E c w h c1 w1] show ?thesis
      by (simp add: verify_def db_PingContext_def split: option.split)
  qed
qed

lemma Initialize_Inr:
  assumes "Initialize E cf v c0 w = (Inr saved, c', w')"
  shows "\<exists>c. WeakDecode E cf c0 = (None, c) \<and>
     MaxOpenConnections c' = MaxOpenConnections (pool_defaults c) \<and>
     MaxIdleConnections c' = MaxIdleConnections (pool_defaults c) \<and> Initialized c'"
proof -
  obtain r c where d: "WeakDecode E cf c0 = (r, c)" by (cases "WeakDecode E cf c0") auto
  obtain dur perr where p: "ParseDurationSecond E (MaxConnectionLifetimeRaw (pool_defaults c)) = (dur, perr)"
    by (cases "ParseDurationSecond E (MaxConnectionLifetimeRaw (pool_defaults c))") auto
  let ?c3 = "(pool_defaults c)\<lparr>maxConnectionLifetime := dur, Initialized := True\<rparr>"
  from assms d p have r: "r = None" and "url_error c = None" and "perr = None"
    by (auto simp: Initialize_def Let_def split: option.splits)
  with assms d p have "(if v then verify E cf ?c3 w else (Inr cf, ?c3, w)) = (Inr saved, c', w')"
    by (simp add: Initialize_def Let_def)
  then have "MaxOpenConnections c' = MaxOpenConnections ?c3 \<and> MaxIdleConnections c' = MaxIdleConnections ?c3
     \<and> Initialized c' = Initialized ?c3"
    by (cases v) (auto dest: verify_fields)
  with d r show ?thesis by simp
qed

lemma pool_defaults_MaxOpen:
  "MaxOpenConnections (pool_defaults c) = (if MaxOpenConnections c = 0 then 2 else MaxOpenConnections c)"
  by (simp add: pool_defaults_def Let_def)

lemma pool_defaults_MaxIdle:
  "MaxIdleConnections (pool_defaults c) =
     (if MaxIdleConnections c = 0 \<or> MaxIdleConnections c > MaxOpenConnections (pool_defaults c)
      then MaxOpenConnections (pool_defaults c) else MaxIdleConnections c)"
  by (simp add: pool_defaults_def Let_def)

text \<open>
  Claim C6. Whenever \<open>Initialize\<close> accepts a configuration (it returns no error), the
  producer's pool bounds are these, where the decoded values are the fields as
  \<^verbatim>\<open>mapstructure.WeakDecode\<close> left them and unset means zero: the maximum of open
  connections is 2 if it was unset and the decoded value otherwise; the maximum of idle
  connections is the (possibly defaulted) maximum of open connections if it was unset or
  exceeds that maximum, and the decoded value otherwise.
\<close>

theorem Initialize_pool_bounds:
  assumes "Initialize E cf v c0 w = (Inr saved, c', w')"
  shows "MaxOpenConnections c' =
           (if MaxOpenConnections (snd (WeakDecode E cf c0)) = 0 then 2
            else MaxOpenConnections (snd (WeakDecode E cf c0)))
       \<and> MaxIdleConnections c' =
           (if MaxIdleConnections (snd (WeakDecode E cf c0)) = 0 then MaxOpenConnections c'
            else if MaxIdleConnections (snd (WeakDecode E cf c0)) > MaxOpenConnections c'
            then MaxOpenConnections c'
            else MaxIdleConnections (snd (WeakDecode E cf c0)))"
proof -
  from Initialize_Inr[OF assms] obtain c where
    d: "WeakDecode E cf c0 = (None, c)" and
    o: "MaxOpenConnections c' = MaxOpenConnections (pool_defaults c)" and
    i: "MaxIdleConnections c' = MaxIdleConnections (pool_defaults c)"
    by blast
  show ?thesis
    unfolding o i d snd_conv
    by (simp add: pool_defaults_MaxOpen pool_defaults_MaxIdle)
qed

text \<open>
  The spec's two examples, and two more: 5 open and 0 idle gives 5 idle; 5 open and 10
  idle gives 5 idle; nothing set gives 2 open; 0 open and 1 idle gives 1 idle.
\<close>

theorem Initialize_pool_bounds_witness:
  "MaxIdleConnections (fst (snd (Initialize (example_sql_env False) (example_conf 5 0) False
       (new_producer ''postgres'') no_calls))) = 5
   \<and> MaxIdleConnections (fst (snd (Initialize (example_sql_env False) (example_conf 5 10) False
       (new_producer ''postgres'') no_calls))) = 5
   \<and> MaxOpenConnections (fst (snd (Initialize (example_sql_env False) (example_conf 0 0) False
       (new_producer ''postgres'') no_calls))) = 2
   \<and> MaxIdleConnections (fst (snd (Initialize (example_sql_env False) (example_conf 0 1) False
       (new_producer ''postgres'') no_calls))) = 1"
proof -
  have d: "snd (WeakDecode (example_sql_env False) (example_conf mo mi) (new_producer ''postgres'')) =
             (new_producer ''postgres'')\<lparr>ConnectionURL := ''postgres://h/d'',
                MaxOpenConnections := mo, MaxIdleConnections := mi\<rparr>" for mo mi
    by (simp add: example_sql_defs)
  have i: "Initialize (example_sql_env False) (example_conf mo mi) False (new_producer ''postgres'') no_calls =
       (Inr (example_conf mo mi),
        fst (snd (Initialize (example_sql_env False) (example_conf mo mi) False
                    (new_producer ''postgres'') no_calls)),
        snd (snd (Initialize (example_sql_env False) (example_conf mo mi) False
                    (new_producer ''postgres'') no_calls)))"
    for mo mi
    by (simp add: sql_defs example_sql_defs Let_def)
  show ?thesis
    using Initialize_pool_bounds[OF i[of 5 0]] Initialize_pool_bounds[OF i[of 5 10]]
      Initialize_pool_bounds[OF i[of 0 0]] Initialize_pool_bounds[OF i[of 0 1]]
    unfolding d by simp
qed

subsection \<open>When the producer is initialized\<close>

lemma reopen_not_ErrNotInitialized: "fst (reopen E c w) \<noteq> Inl ErrNotInitialized"
  by (simp add: reopen_def sql_Open_call_def split: option.split)

lemma Connection_ErrNotInitialized_iff:
  "(fst (Connection E c w) = Inl ErrNotInitialized) = (\<not> Initialized c)"
  by (simp add: Connection_def reopen_not_ErrNotInitialized split: option.split prod.split)

lemma verify_Initialized:
  "Initialized (fst (snd (verify E cf c w))) = Initialized c"
  using verify_fields[of E cf c w "fst (verify E cf c w)" "fst (snd (verify E cf c w))"
      "snd (snd (verify E cf c w))"]
  by simp

lemma Initialize_flag:
  "Initialized (fst (snd (Initialize E cf v c0 w))) =
     (validated E cf c0 \<or> Initialized (snd (WeakDecode E cf c0)))"
proof -
  obtain r c where d: "WeakDecode E cf c0 = (r, c)" by (cases "WeakDecode E cf c0") auto
  obtain dur perr where p: "ParseDurationSecond E (MaxConnectionLifetimeRaw (pool_defaults c)) = (dur, perr)"
    by (cases "ParseDurationSecond E (MaxConnectionLifetimeRaw (pool_defaults c))") auto
  have pd: "Initialized (pool_defaults c) = Initialized c"
    by (simp add: pool_defaults_def Let_def)
  show ?thesis
    using d p pd
    by (auto simp: Initialize_def validated_def Let_def verify_Initialized split: option.splits)
qed

lemma Initialize_Inr_validated:
  assumes "\<not> isl (fst (Initialize E cf v c0 w))"
  shows "validated E cf c0"
proof -
  obtain r c where d: "WeakDecode E cf c0 = (r, c)" by (cases "WeakDecode E cf c0") auto
  obtain dur perr where p: "ParseDurationSecond E (MaxConnectionLifetimeRaw (pool_defaults c)) = (dur, perr)"
    by (cases "ParseDurationSecond E (MaxConnectionLifetimeRaw (pool_defaults c))") auto
  from assms d p show ?thesis
    by (auto simp: Initialize_def validated_def Let_def split: option.splits)
qed

lemma Initialize_no_verification:
  assumes "validated E cf c0"
  shows "\<not> isl (fst (Initialize E cf False c0 w))"
proof -
  obtain r c where d: "WeakDecode E cf c0 = (r, c)" by (cases "WeakDecode E cf c0") auto
  obtain dur perr where p: "ParseDurationSecond E (MaxConnectionLifetimeRaw (pool_defaults c)) = (dur, perr)"
    by (cases "ParseDurationSecond E (MaxConnectionLifetimeRaw (pool_defaults c))") auto
  from assms d p show ?thesis
    by (simp add: Initialize_def validated_def Let_def)
qed

text \<open>
  Claim C2, as stated, fails: \<open>Initialize\<close> sets the flag before it verifies the
  connection (line 90, and the comment above it). Here the configuration is valid, the
  verification is asked for and the ping fails: \<open>Initialize\<close> returns an error, the
  producer is marked initialized all the same, and a later \<open>Connection\<close> does not
  return the not-initialized error.
\<close>

theorem Initialize_failed_verification_counterexample:
  "isl (fst (Initialize (example_sql_env True) (example_conf 5 0) True (new_producer ''postgres'') no_calls))
   \<and> Initialized (fst (snd (Initialize (example_sql_env True) (example_conf 5 0) True
                              (new_producer ''postgres'') no_calls)))
   \<and> fst (Connection (example_sql_env True)
            (fst (snd (Initialize (example_sql_env True) (example_conf 5 0) True
                         (new_producer ''postgres'') no_calls)))
            (snd (snd (Initialize (example_sql_env True) (example_conf 5 0) True
                         (new_producer ''postgres'') no_calls))))
       \<noteq> Inl ErrNotInitialized"
  by (simp add: sql_defs example_sql_defs Let_def)

text \<open>
  Claim C2, amended. \<open>Connection\<close> returns the not-initialized error exactly when the
  producer's flag is unset. After \<open>Initialize\<close> the flag is set exactly when the
  configuration passed validation (or the flag was set already when the decoder
  returned): whether the verification then fails plays no part. An \<open>Initialize\<close> that
  returns no error has passed validation, and without verification passing validation
  is returning no error.
\<close>

theorem Initialized_after_validation:
  "(fst (Connection E c w) = Inl ErrNotInitialized) = (\<not> Initialized c)
   \<and> Initialized (fst (snd (Initialize E cf v c0 w))) =
       (validated E cf c0 \<or> Initialized (snd (WeakDecode E cf c0)))
   \<and> (\<not> isl (fst (Initialize E cf v c0 w)) \<longrightarrow> validated E cf c0)
   \<and> (validated E cf c0 \<and> \<not> v \<longrightarrow> \<not> isl (fst (Initialize E cf v c0 w)))"
  using Connection_ErrNotInitialized_iff[of E c w] Initialize_flag[of E cf v c0 w]
    Initialize_Inr_validated[of E cf v c0 w] Initialize_no_verification[of E cf c0 w]
  by auto

text \<open>
  On a new producer and a valid configuration: before \<open>Initialize\<close> the error is the
  not-initialized one; \<open>Initialize\<close> without verification succeeds and sets the flag;
  \<open>Initialize\<close> with a failing verification returns an error and sets the flag too.
\<close>

theorem Initialized_after_validation_witness:
  "validated (example_sql_env True) (example_conf 5 0) (new_producer ''postgres'')
   \<and> \<not> Initialized (new_producer ''postgres'')
   \<and> fst (Connection (example_sql_env True) (new_producer ''postgres'') no_calls) = Inl ErrNotInitialized
   \<and> \<not> isl (fst (Initialize (example_sql_env True) (example_conf 5 0) False (new_producer ''postgres'') no_calls))
   \<and> Initialized (fst (snd (Initialize (example_sql_env True) (example_conf 5 0) False
                              (new_producer ''postgres'') no_calls)))
   \<and> isl (fst (Initialize (example_sql_env True) (example_conf 5 0) True (new_producer ''postgres'') no_calls))
   \<and> Initialized (fst (snd (Initialize (example_sql_env True) (example_conf 5 0) True
                              (new_producer ''postgres'') no_calls)))"
proof -
  have v: "validated (example_sql_env True) (example_conf 5 0) (new_producer ''postgres'')"
    by (simp add: validated_def url_error_def pool_defaults_def example_sql_defs Let_def)
  have n: "\<not> Initialized (new_producer ''postgres'')"
    by (simp add: new_producer_def)
  have f: "isl (fst (Initialize (example_sql_env True) (example_conf 5 0) True (new_producer ''postgres'') no_calls))"
    by (simp add: sql_defs example_sql_defs Let_def)
  show ?thesis
    using v n f
      Initialized_after_validation[where E = "example_sql_env True" and c = "new_producer ''postgres''"
        and w = no_calls and cf = "example_conf 5 0" and v = False and ?c0.0 = "new_producer ''postgres''"]
      Initialized_after_validation[where E = "example_sql_env True" and c = "new_producer ''postgres''"
        and w = no_calls and cf = "example_conf 5 0" and v = True and ?c0.0 = "new_producer ''postgres''"]
    by simp
qed

subsection \<open>Reusing or rebuilding the handle\<close>

text \<open>
  Claim C7. On an initialized producer, with \<open>driver\<close> the type with \<open>mssql\<close> mapped to
  \<open>sqlserver\<close> and \<open>dsn\<close> the connection string with the UTC parameter appended when it
  begins with \<open>postgres://\<close> or \<open>postgresql://\<close> (after \<open>&\<close> when it contains a question
  mark, after \<open>?\<close> otherwise): a handle whose ping succeeds is returned as it is, and
  nothing else is called; when the ping fails the old handle is closed, and then, as
  when there was no handle, \<^verbatim>\<open>sql.Open\<close> is called with \<open>driver\<close> and \<open>dsn\<close>. If it
  succeeds, the new handle (the next one of the library, so none of those made before)
  gets the three pool bounds of the producer, is stored and returned; if it fails, its
  error is returned and no handle is stored.
\<close>

theorem Connection_reuse_or_rebuild:
  assumes "Initialized c"
    and "driver = (if Type c = ''mssql'' then ''sqlserver'' else Type c)"
    and "dsn = (if prefix ''postgres://'' (ConnectionURL c) \<or> prefix ''postgresql://'' (ConnectionURL c)
                then (if CHR ''?'' \<in> set (ConnectionURL c) then ConnectionURL c @ ''&timezone=utc''
                      else ConnectionURL c @ ''?timezone=utc'')
                else ConnectionURL c)"
    and "w1 = (case db c of None \<Rightarrow> w
               | Some h \<Rightarrow> w\<lparr>calls := calls w @ [PingContext h, DB_Close h]\<rparr>)"
    and "rebuild = (db c = None \<or> (\<exists>h m. db c = Some h \<and> ping_err E (calls w) h = Some m))"
  shows "(\<forall>h. db c = Some h \<and> ping_err E (calls w) h = None \<longrightarrow>
            Connection E c w = (Inr h, c, w\<lparr>calls := calls w @ [PingContext h]\<rparr>))
       \<and> (rebuild \<and> open_err E (calls w1) driver dsn = None \<longrightarrow>
            Connection E c w =
              (Inr (opened w), c\<lparr>db := Some (opened w)\<rparr>,
               \<lparr>calls = calls w1 @
                   [sql_Open driver dsn,
                    SetMaxOpenConns (opened w) (MaxOpenConnections c),
                    SetMaxIdleConns (opened w) (MaxIdleConnections c),
                    SetConnMaxLifetime (opened w) (maxConnectionLifetime c)],
                 opened = Suc (opened w)\<rparr>))
       \<and> (\<forall>m. rebuild \<and> open_err E (calls w1) driver dsn = Some m \<longrightarrow>
            Connection E c w =
              (Inl (Ext m), c\<lparr>db := None\<rparr>,
               \<lparr>calls = calls w1 @ [sql_Open driver dsn], opened = opened w\<rparr>))"
proof (cases "db c")
  case None
  with assms show ?thesis
    by (simp add: Connection_def reopen_def sql_Open_call_def called_def dbType_of_def conn_of_spec
        split: option.split)
next
  case (Some h)
  show ?thesis
  proof (cases "ping_err E (calls w) h")
    case None
    with Some assms show ?thesis
      by (simp add: Connection_def db_PingContext_def called_def)
  next
    case (Some m)
    with \<open>db c = Some h\<close> assms show ?thesis
      by (simp add: Connection_def reopen_def sql_Open_call_def called_def dbType_of_def conn_of_spec
          db_PingContext_def db_Close_def split: option.split)
  qed
qed

text \<open>
  The producer holds handle 0 of a library that has made one handle. When the ping
  succeeds, handle 0 comes back. When it fails, handle 0 is closed and handle 1 is
  opened, as \<open>sqlserver\<close>, with \<open>&timezone=utc\<close> appended, and with the bounds 5, 3 and
  30 seconds.
\<close>

theorem Connection_reuse_or_rebuild_witness:
  "Connection (example_sql_env False) pooled_producer \<lparr>calls = [], opened = 1\<rparr> =
     (Inr 0, pooled_producer, \<lparr>calls = [PingContext 0], opened = 1\<rparr>)
   \<and> Connection (example_sql_env True) pooled_producer \<lparr>calls = [], opened = 1\<rparr> =
     (Inr 1, pooled_producer\<lparr>db := Some 1\<rparr>,
      \<lparr>calls = [PingContext 0, DB_Close 0,
                 sql_Open ''sqlserver'' ''postgresql://h/d?sslmode=disable&timezone=utc'',
                 SetMaxOpenConns 1 5, SetMaxIdleConns 1 3, SetConnMaxLifetime 1 30000000000],
        opened = 2\<rparr>)"
  using Connection_reuse_or_rebuild[where c = pooled_producer and w = "\<lparr>calls = [], opened = 1\<rparr>"
      and E = "example_sql_env False", OF _ refl refl refl refl]
    Connection_reuse_or_rebuild[where c = pooled_producer and w = "\<lparr>calls = [], opened = 1\<rparr>"
      and E = "example_sql_env True", OF _ refl refl refl refl]
  by (simp add: pooled_producer_def example_sql_env_def)

section \<open>Properties of the connection cache\<close>

lemma GetConnection_stored:
  assumes "GetConnection E name b w = (r, b', w')" and "b' \<noteq> b"
  shows "\<exists>config w1 d w2. connections b name = None \<and> DatabaseConfig E name w = (Inr config, w1) \<and>
           PluginFactory E (PluginName config) w1 = (Inr d, w2) \<and>
           Database_Initialize E d (ConnectionDetails config) True w2 = (None, w') \<and>
           r = Inr d \<and> b' = b\<lparr>connections := (connections b)(name \<mapsto> d)\<rparr>"
  using assms
  by (auto simp: GetConnection_def split: option.splits sum.splits prod.splits)

text \<open>
  Claim C1. Let \<open>GetConnection\<close> miss the cache, find the configuration and get the
  instance \<open>d\<close> from the factory. If \<open>Initialize\<close> of \<open>d\<close> returns an error, then \<open>Close\<close>
  of \<open>d\<close> is called next (its own result is dropped), that error is returned and the
  cache is the one before the call. If \<open>Initialize\<close> returns no error, \<open>d\<close> is stored
  under the name and returned. And whatever the call did (for every store, factory and
  plugin): when the cache after the call differs from the cache before, it differs by
  the entry for the name, which holds the instance returned, and the \<open>Initialize\<close> of
  that instance returned no error.
\<close>

theorem GetConnection_failed_Initialize_not_cached:
  assumes "connections b name = None"
    and "DatabaseConfig E name w = (Inr config, w1)"
    and "PluginFactory E (PluginName config) w1 = (Inr d, w2)"
  shows "(\<forall>err w3. Database_Initialize E d (ConnectionDetails config) True w2 = (Some err, w3) \<longrightarrow>
            GetConnection E name b w = (Inl err, b, snd (Database_Close E d w3)))
       \<and> (\<forall>w3. Database_Initialize E d (ConnectionDetails config) True w2 = (None, w3) \<longrightarrow>
            GetConnection E name b w = (Inr d, b\<lparr>connections := (connections b)(name \<mapsto> d)\<rparr>, w3))
       \<and> (\<forall>n' b0 w0 r b' w'. GetConnection E n' b0 w0 = (r, b', w') \<and> b' \<noteq> b0 \<longrightarrow>
            (\<exists>config' w1' d' w2'.
               DatabaseConfig E n' w0 = (Inr config', w1') \<and>
               PluginFactory E (PluginName config') w1' = (Inr d', w2') \<and>
               Database_Initialize E d' (ConnectionDetails config') True w2' = (None, w') \<and>
               r = Inr d' \<and> b' = b0\<lparr>connections := (connections b0)(n' \<mapsto> d')\<rparr>))"
proof (intro conjI allI impI)
  fix err w3
  assume "Database_Initialize E d (ConnectionDetails config) True w2 = (Some err, w3)"
  with assms show "GetConnection E name b w = (Inl err, b, snd (Database_Close E d w3))"
    by (simp add: GetConnection_def)
next
  fix w3
  assume "Database_Initialize E d (ConnectionDetails config) True w2 = (None, w3)"
  with assms show "GetConnection E name b w = (Inr d, b\<lparr>connections := (connections b)(name \<mapsto> d)\<rparr>, w3)"
    by (simp add: GetConnection_def)
next
  fix n' b0 w0 r b' w'
  assume "GetConnection E n' b0 w0 = (r, b', w') \<and> b' \<noteq> b0"
  then show "\<exists>config' w1' d' w2'.
               DatabaseConfig E n' w0 = (Inr config', w1') \<and>
               PluginFactory E (PluginName config') w1' = (Inr d', w2') \<and>
               Database_Initialize E d' (ConnectionDetails config') True w2' = (None, w') \<and>
               r = Inr d' \<and> b' = b0\<lparr>connections := (connections b0)(n' \<mapsto> d')\<rparr>"
    using GetConnection_stored[of E n' b0 w0 r b' w'] by blast
qed

text \<open>
  With the store and the plugin above: when \<open>Initialize\<close> fails the error comes back,
  the cache stays empty and the log ends with the \<open>Close\<close>; when it succeeds instance
  7 is stored under \<open>pg\<close>.
\<close>

theorem GetConnection_failed_Initialize_not_cached_witness:
  "GetConnection (example_backend_env True False) ''pg'' empty_backend [] =
     (Inl (Ext ''connection refused''), empty_backend,
      [''Get'', ''config/pg'', ''PluginFactory'', ''postgresql-database-plugin'', ''Initialize'', ''Close''])
   \<and> GetConnection (example_backend_env False False) ''pg'' empty_backend [] =
     (Inr 7, pg_backend,
      [''Get'', ''config/pg'', ''PluginFactory'', ''postgresql-database-plugin'', ''Initialize''])"
proof -
  let ?cfg = "\<lparr>PluginName = ''postgresql-database-plugin'', ConnectionDetails = Map.empty\<rparr>"
  have m: "connections empty_backend ''pg'' = None"
    by (simp add: empty_backend_def)
  have c: "DatabaseConfig (example_backend_env i False) ''pg'' [] = (Inr ?cfg, [''Get'', ''config/pg''])" for i
    by (simp add: DatabaseConfig_def example_backend_env_def)
  have f: "PluginFactory (example_backend_env i False) (PluginName ?cfg) [''Get'', ''config/pg''] =
             (Inr 7, [''Get'', ''config/pg'', ''PluginFactory'', ''postgresql-database-plugin''])" for i
    by (simp add: example_backend_env_def)
  show ?thesis
    using GetConnection_failed_Initialize_not_cached[OF m c[of True] f[of True]]
      GetConnection_failed_Initialize_not_cached[OF m c[of False] f[of False]]
    by (simp add: example_backend_env_def empty_backend_def pg_backend_def)
qed

text \<open>
  Claim C3. For a name in the cache, \<open>ClearConnection\<close> calls \<open>Close\<close> of its instance:
  when that returns no error the entry is removed and no error is returned; when it
  returns an error, that error is returned and the cache is unchanged. So the entry is
  gone after the call exactly when \<open>Close\<close> returned no error. For a name not in the
  cache nothing is called, no error is returned and the cache is unchanged.
\<close>

theorem ClearConnection_removes_iff_Close_ok:
  "(\<forall>d w1. connections b name = Some d \<and> Database_Close E d w = (None, w1) \<longrightarrow>
      ClearConnection E name b w = (None, b\<lparr>connections := (connections b)(name := None)\<rparr>, w1))
   \<and> (\<forall>d err w1. connections b name = Some d \<and> Database_Close E d w = (Some err, w1) \<longrightarrow>
      ClearConnection E name b w = (Some err, b, w1))
   \<and> (\<forall>d. connections b name = Some d \<longrightarrow>
        (connections (fst (snd (ClearConnection E name b w))) name = None) =
        (fst (Database_Close E d w) = None))
   \<and> (connections b name = None \<longrightarrow> ClearConnection E name b w = (None, b, w))"
  by (auto simp: ClearConnection_def split: option.splits prod.splits)

theorem ClearConnection_removes_iff_Close_ok_witness:
  "ClearConnection (example_backend_env False False) ''pg'' pg_backend [] = (None, empty_backend, [''Close''])
   \<and> ClearConnection (example_backend_env False True) ''pg'' pg_backend [] =
       (Some (Ext ''close failed''), pg_backend, [''Close''])
   \<and> ClearConnection (example_backend_env False True) ''mysql'' pg_backend [] = (None, pg_backend, [])"
  using ClearConnection_removes_iff_Close_ok[of pg_backend "''pg''" "example_backend_env False False" "[]"]
    ClearConnection_removes_iff_Close_ok[of pg_backend "''pg''" "example_backend_env False True" "[]"]
    ClearConnection_removes_iff_Close_ok[of pg_backend "''mysql''" "example_backend_env False True" "[]"]
  by (simp add: example_backend_env_def empty_backend_def pg_backend_def)

text \<open>
  Claim C10. \<open>Close\<close> of the SQL producer returns no error, whatever the producer holds
  and whatever closing the handle reports; afterwards the producer holds no handle. It
  closes the handle it held, if any, and nothing else, so a second \<open>Close\<close> calls
  nothing and changes nothing. Hence, in a cache whose instances close as the SQL
  producer does, \<open>ClearConnection\<close> returns no error and the name is not in the cache
  afterwards.
\<close>

theorem Close_returns_nil:
  "fst (Close E c w) = None
   \<and> db (fst (snd (Close E c w))) = None
   \<and> calls (snd (snd (Close E c w))) =
       calls w @ (case db c of Some h \<Rightarrow> [DB_Close h] | None \<Rightarrow> [])
   \<and> Close E (fst (snd (Close E c w))) (snd (snd (Close E c w))) =
       (None, fst (snd (Close E c w)), snd (snd (Close E c w)))
   \<and> fst (ClearConnection (B\<lparr>Database_Close := producer_Close E\<rparr>) name b pw) = None
   \<and> connections (fst (snd (ClearConnection (B\<lparr>Database_Close := producer_Close E\<rparr>) name b pw))) name
       = None"
  by (simp add: Close_def Let_def db_Close_def called_def ClearConnection_def producer_Close_def
      split: option.split)

text \<open>Closing handle 0 reports an error here, and \<open>Close\<close> returns none.\<close>

theorem Close_returns_nil_witness:
  "close_err (example_sql_env False) (calls \<lparr>calls = [], opened = 1\<rparr>) 0 = Some ''close failed''
   \<and> fst (Close (example_sql_env False) pooled_producer \<lparr>calls = [], opened = 1\<rparr>) = None
   \<and> db (fst (snd (Close (example_sql_env False) pooled_producer \<lparr>calls = [], opened = 1\<rparr>))) = None
   \<and> calls (snd (snd (Close (example_sql_env False) pooled_producer \<lparr>calls = [], opened = 1\<rparr>)))
       = [DB_Close 0]"
proof -
  note t = Close_returns_nil[of "example_sql_env False" pooled_producer "\<lparr>calls = [], opened = 1\<rparr>"]
  from t[THEN conjunct1] t[THEN conjunct2, THEN conjunct1]
    t[THEN conjunct2, THEN conjunct2, THEN conjunct1]
  show ?thesis
    by (simp add: example_sql_env_def pooled_producer_def)
qed

section \<open>Properties of reading a role\<close>

text \<open>
  Claim C5. Let the stored entry decode to the legacy view \<open>upgradeCh\<close> and to the
  canonical view \<open>result\<close>. If the legacy view is the zero value, the role is \<open>result\<close>,
  untouched. Otherwise the role is \<open>result\<close> with all four statement fields replaced by
  the legacy view's. \<open>Role\<close> returns that role for an entry found in the store. So, for
  an entry whose canonical view has no statements (a record with the legacy field only)
  and an entry whose legacy view is zero and whose canonical view holds the same four
  statements (the same record written with the canonical names): the second decodes to
  its canonical view as it is, and both decode to the same four statements.
\<close>

theorem decode_role_legacy_override:
  assumes "DecodeJSON_upgradeCheck E entry = Inr upgradeCh"
    and "DecodeJSON_roleEntry E entry = Inr result"
    and "legacy = \<lparr>dbplugin_Statements.CreationStatements = CreationStatements (Statements upgradeCh),
                   dbplugin_Statements.RevocationStatements = RevocationStatements (Statements upgradeCh),
                   dbplugin_Statements.RollbackStatements = RollbackStatements (Statements upgradeCh),
                   dbplugin_Statements.RenewStatements = RenewStatements (Statements upgradeCh)\<rparr>"
  shows "(upgradeCh = empty \<longrightarrow> decode_role E entry = Inr result)
       \<and> (upgradeCh \<noteq> empty \<longrightarrow>
            decode_role E entry = Inr (result\<lparr>roleEntry.Statements := legacy\<rparr>))
       \<and> (\<forall>roleName w w1. role_Get E (''role/'' @ roleName) w = (Inr (Some entry), w1) \<longrightarrow>
            Role E roleName w =
              (Inr (Some (if upgradeCh = empty then result
                          else result\<lparr>roleEntry.Statements := legacy\<rparr>)), w1))
       \<and> (\<forall>entry2 result2.
            roleEntry.Statements result =
              \<lparr>dbplugin_Statements.CreationStatements = [],
               dbplugin_Statements.RevocationStatements = [],
               dbplugin_Statements.RollbackStatements = [],
               dbplugin_Statements.RenewStatements = []\<rparr> \<and>
            DecodeJSON_upgradeCheck E entry2 = Inr empty \<and>
            DecodeJSON_roleEntry E entry2 = Inr result2 \<and>
            roleEntry.Statements result2 = legacy \<longrightarrow>
              decode_role E entry2 = Inr result2 \<and>
              map_sum id roleEntry.Statements (decode_role E entry) =
              map_sum id roleEntry.Statements (decode_role E entry2))"
proof -
  have z: "upgradeCh = empty \<Longrightarrow> legacy =
      \<lparr>dbplugin_Statements.CreationStatements = [],
       dbplugin_Statements.RevocationStatements = [],
       dbplugin_Statements.RollbackStatements = [],
       dbplugin_Statements.RenewStatements = []\<rparr>"
    using assms(3) by (simp add: empty_def)
  have d: "decode_role E entry =
             Inr (if upgradeCh = empty then result else result\<lparr>roleEntry.Statements := legacy\<rparr>)"
    using assms by (simp add: decode_role_def)
  have r: "Role E roleName w =
             (Inr (Some (if upgradeCh = empty then result
                         else result\<lparr>roleEntry.Statements := legacy\<rparr>)), w1)"
    if "role_Get E (''role/'' @ roleName) w = (Inr (Some entry), w1)" for roleName w w1
    using that d by (simp add: Role_def)
  have e: "decode_role E entry2 = Inr result2 \<and>
           map_sum id roleEntry.Statements (decode_role E entry) =
           map_sum id roleEntry.Statements (decode_role E entry2)"
    if "roleEntry.Statements result =
          \<lparr>dbplugin_Statements.CreationStatements = [],
           dbplugin_Statements.RevocationStatements = [],
           dbplugin_Statements.RollbackStatements = [],
           dbplugin_Statements.RenewStatements = []\<rparr>"
      and "DecodeJSON_upgradeCheck E entry2 = Inr empty"
      and "DecodeJSON_roleEntry E entry2 = Inr result2"
      and "roleEntry.Statements result2 = legacy"
    for entry2 result2
  proof -
    have "decode_role E entry2 = Inr result2"
      using that(2,3) by (simp add: decode_role_def)
    moreover have "map_sum id roleEntry.Statements (decode_role E entry) = Inr legacy"
      using d z that(1) by (cases "upgradeCh = empty") simp_all
    ultimately show ?thesis using that(4) by simp
  qed
  show ?thesis
  proof (intro conjI)
    show "upgradeCh = empty \<longrightarrow> decode_role E entry = Inr result"
      using d by simp
    show "upgradeCh \<noteq> empty \<longrightarrow>
            decode_role E entry = Inr (result\<lparr>roleEntry.Statements := legacy\<rparr>)"
      using d by simp
  qed (use r e in blast)+
qed

text \<open>
  The two example records decode to the same statements; for the legacy one they come
  from the override, for the canonical one no override takes place.
\<close>

theorem decode_role_legacy_override_witness:
  "DecodeJSON_upgradeCheck example_role_env legacy_record \<noteq> Inr empty
   \<and> DecodeJSON_upgradeCheck example_role_env canonical_record = Inr empty
   \<and> map_sum id roleEntry.Statements (decode_role example_role_env legacy_record) =
       Inr \<lparr>dbplugin_Statements.CreationStatements = ''CREATE ROLE r'',
            dbplugin_Statements.RevocationStatements = ''DROP ROLE r'',
            dbplugin_Statements.RollbackStatements = [],
            dbplugin_Statements.RenewStatements = []\<rparr>
   \<and> decode_role example_role_env canonical_record =
       DecodeJSON_roleEntry example_role_env canonical_record
   \<and> map_sum id roleEntry.Statements (decode_role example_role_env canonical_record) =
       map_sum id roleEntry.Statements (decode_role example_role_env legacy_record)"
proof -
  let ?u = "\<lparr>Statements = \<lparr>CreationStatements = ''CREATE ROLE r'', RevocationStatements = ''DROP ROLE r'',
                           RollbackStatements = [], RenewStatements = []\<rparr>\<rparr>"
  let ?z = "\<lparr>dbplugin_Statements.CreationStatements = [],
             dbplugin_Statements.RevocationStatements = [],
             dbplugin_Statements.RollbackStatements = [],
             dbplugin_Statements.RenewStatements = []\<rparr>"
  let ?s = "\<lparr>dbplugin_Statements.CreationStatements = ''CREATE ROLE r'',
             dbplugin_Statements.RevocationStatements = ''DROP ROLE r'',
             dbplugin_Statements.RollbackStatements = [],
             dbplugin_Statements.RenewStatements = []\<rparr>"
  have a: "DecodeJSON_upgradeCheck example_role_env legacy_record = Inr ?u"
    by (simp add: example_role_env_def legacy_record_def json_object_def json_string_def)
  have b: "DecodeJSON_roleEntry example_role_env legacy_record = Inr \<lparr>roleEntry.Statements = ?z\<rparr>"
    by (simp add: example_role_env_def legacy_record_def json_object_def json_string_def)
  have c: "DecodeJSON_upgradeCheck example_role_env canonical_record = Inr empty"
    by (simp add: example_role_env_def canonical_record_def json_object_def json_string_def empty_def)
  have d: "DecodeJSON_roleEntry example_role_env canonical_record = Inr \<lparr>roleEntry.Statements = ?s\<rparr>"
    by (simp add: example_role_env_def canonical_record_def json_object_def json_string_def)
  have n: "?u \<noteq> empty"
    by (simp add: empty_def)
  note t = decode_role_legacy_override[OF a b refl]
  have l: "decode_role example_role_env legacy_record =
             Inr (\<lparr>roleEntry.Statements = ?z\<rparr>\<lparr>roleEntry.Statements := ?s\<rparr>)"
    using t[THEN conjunct2, THEN conjunct1] n by simp
  have "roleEntry.Statements \<lparr>roleEntry.Statements = ?z\<rparr> = ?z \<and>
        DecodeJSON_upgradeCheck example_role_env canonical_record = Inr empty \<and>
        DecodeJSON_roleEntry example_role_env canonical_record = Inr \<lparr>roleEntry.Statements = ?s\<rparr> \<and>
        roleEntry.Statements \<lparr>roleEntry.Statements = ?s\<rparr> = ?s"
    using c d by simp
  then have k: "decode_role example_role_env canonical_record = Inr \<lparr>roleEntry.Statements = ?s\<rparr> \<and>
      map_sum id roleEntry.Statements (decode_role example_role_env legacy_record) =
      map_sum id roleEntry.Statements (decode_role example_role_env canonical_record)"
    using t[THEN conjunct2, THEN conjunct2, THEN conjunct2, rule_format,
        of canonical_record "\<lparr>roleEntry.Statements = ?s\<rparr>"]
    by simp
  have 1: "DecodeJSON_upgradeCheck example_role_env legacy_record \<noteq> Inr empty"
    using a n by simp
  have 3: "map_sum id roleEntry.Statements (decode_role example_role_env legacy_record) = Inr ?s"
    unfolding l by simp
  have 4: "decode_role example_role_env canonical_record =
       DecodeJSON_roleEntry example_role_env canonical_record"
    using k d by simp
  have 5: "map_sum id roleEntry.Statements (decode_role example_role_env canonical_record) =
       map_sum id roleEntry.Statements (decode_role example_role_env legacy_record)"
    using k by simp
  from 1 c 3 4 5 show ?thesis by blast
qed

section \<open>Properties of the directory configuration\<close>

lemma version_order_agreesD:
  assumes "version_order_agrees tbl" and "map_of tbl a = Some va" and "map_of tbl b = Some vb"
  shows "string_less a b = (va < vb)"
proof -
  from assms(2) have "(a, va) \<in> set tbl" by (rule map_of_SomeD)
  moreover from assms(3) have "(b, vb) \<in> set tbl" by (rule map_of_SomeD)
  ultimately show ?thesis
    using assms(1) unfolding version_order_agrees_def list_all_iff by fastforce
qed

lemma NewConfiguration_tls_error:
  "tls_version_error E (tls_min_version fd) (tls_max_version fd) \<noteq> None \<Longrightarrow> isl (NewConfiguration E fd)"
  by (auto simp: NewConfiguration_def split: option.splits)

lemma NewConfiguration_accepts:
  assumes "groupfilter_error E (groupfilter fd) = None" and "certificate_error E (certificate fd) = None"
    and "tls_version_error E (tls_min_version fd) (tls_max_version fd) = None"
  shows "\<exists>conf. NewConfiguration E fd = Inr conf \<and> TLSMinVersion conf = tls_min_version fd \<and>
           TLSMaxVersion conf = tls_max_version fd"
  using assms by (simp add: NewConfiguration_def)

text \<open>
  The group filter and the certificate are checked before the two versions (lines 33 to
  39 and 51 to 61): an input whose versions pass can still be refused there. Here both
  versions pass and the group filter is not a template.
\<close>

lemma NewConfiguration_groupfilter_first:
  "tls_version_error example_config_env
     (tls_min_version ((example_fields ''tls10'' ''tls12'')\<lparr>groupfilter := ''{{''\<rparr>))
     (tls_max_version ((example_fields ''tls10'' ''tls12'')\<lparr>groupfilter := ''{{''\<rparr>)) = None
   \<and> NewConfiguration example_config_env ((example_fields ''tls10'' ''tls12'')\<lparr>groupfilter := ''{{''\<rparr>)
       = Inl (Errorf ''invalid groupfilter (%v)'' [ArgE (Ext ''unclosed action'')])"
  by (simp add: NewConfiguration_def groupfilter_error_def tls_version_error_def
      example_config_env_def example_fields_def example_versions_def)

text \<open>
  Claim C8. For every field input, \<open>NewConfiguration\<close> fails when \<open>tls_min_version\<close> or
  \<open>tls_max_version\<close> is empty or is not in the table, and when \<open>tls_max_version\<close> is
  below \<open>tls_min_version\<close>. The code compares the two identifiers as strings; for every
  table that agrees with the ordering of the versions this is the comparison of the
  versions, so there it fails when the maximum version is below the minimum version.
  An input that reaches these checks (its group filter and certificate passed theirs,
  earlier in the function) and passes them is accepted, and both identifiers are stored
  in the configuration.
\<close>

theorem NewConfiguration_tls_versions:
  "(tls_min_version fd = [] \<or> TLSLookup E (tls_min_version fd) = None \<or>
    tls_max_version fd = [] \<or> TLSLookup E (tls_max_version fd) = None
      \<longrightarrow> isl (NewConfiguration E fd))
   \<and> (string_less (tls_max_version fd) (tls_min_version fd) \<longrightarrow> isl (NewConfiguration E fd))
   \<and> (\<forall>tbl vmin vmax.
        TLSLookup E = map_of tbl \<and> version_order_agrees tbl \<and>
        TLSLookup E (tls_min_version fd) = Some vmin \<and>
        TLSLookup E (tls_max_version fd) = Some vmax \<and> vmax < vmin
          \<longrightarrow> isl (NewConfiguration E fd))
   \<and> (groupfilter_error E (groupfilter fd) = None \<and> certificate_error E (certificate fd) = None \<and>
       tls_min_version fd \<noteq> [] \<and> TLSLookup E (tls_min_version fd) \<noteq> None \<and>
       tls_max_version fd \<noteq> [] \<and> TLSLookup E (tls_max_version fd) \<noteq> None \<and>
       \<not> string_less (tls_max_version fd) (tls_min_version fd)
         \<longrightarrow> (\<exists>conf. NewConfiguration E fd = Inr conf \<and>
                TLSMinVersion conf = tls_min_version fd \<and> TLSMaxVersion conf = tls_max_version fd))
   \<and> (\<forall>tbl vmin vmax.
        TLSLookup E = map_of tbl \<and> version_order_agrees tbl \<and>
        groupfilter_error E (groupfilter fd) = None \<and> certificate_error E (certificate fd) = None \<and>
        tls_min_version fd \<noteq> [] \<and> tls_max_version fd \<noteq> [] \<and>
        TLSLookup E (tls_min_version fd) = Some vmin \<and>
        TLSLookup E (tls_max_version fd) = Some vmax \<and> vmin \<le> vmax
          \<longrightarrow> (\<exists>conf. NewConfiguration E fd = Inr conf \<and>
                 TLSMinVersion conf = tls_min_version fd \<and> TLSMaxVersion conf = tls_max_version fd))"
proof (intro conjI allI impI)
  assume "tls_min_version fd = [] \<or> TLSLookup E (tls_min_version fd) = None \<or>
    tls_max_version fd = [] \<or> TLSLookup E (tls_max_version fd) = None"
  then have "tls_version_error E (tls_min_version fd) (tls_max_version fd) \<noteq> None"
    by (auto simp: tls_version_error_def)
  then show "isl (NewConfiguration E fd)" by (rule NewConfiguration_tls_error)
next
  assume "string_less (tls_max_version fd) (tls_min_version fd)"
  then have "tls_version_error E (tls_min_version fd) (tls_max_version fd) \<noteq> None"
    by (simp add: tls_version_error_def)
  then show "isl (NewConfiguration E fd)" by (rule NewConfiguration_tls_error)
next
  fix tbl vmin vmax
  assume a: "TLSLookup E = map_of tbl \<and> version_order_agrees tbl \<and>
        TLSLookup E (tls_min_version fd) = Some vmin \<and>
        TLSLookup E (tls_max_version fd) = Some vmax \<and> vmax < vmin"
  then have "map_of tbl (tls_max_version fd) = Some vmax" and "map_of tbl (tls_min_version fd) = Some vmin"
    and "version_order_agrees tbl" and "vmax < vmin"
    by auto
  then have "string_less (tls_max_version fd) (tls_min_version fd)"
    using version_order_agreesD[of tbl "tls_max_version fd" vmax "tls_min_version fd" vmin] by simp
  then have "tls_version_error E (tls_min_version fd) (tls_max_version fd) \<noteq> None"
    by (simp add: tls_version_error_def)
  then show "isl (NewConfiguration E fd)" by (rule NewConfiguration_tls_error)
next
  assume a: "groupfilter_error E (groupfilter fd) = None \<and> certificate_error E (certificate fd) = None \<and>
       tls_min_version fd \<noteq> [] \<and> TLSLookup E (tls_min_version fd) \<noteq> None \<and>
       tls_max_version fd \<noteq> [] \<and> TLSLookup E (tls_max_version fd) \<noteq> None \<and>
       \<not> string_less (tls_max_version fd) (tls_min_version fd)"
  then have "tls_version_error E (tls_min_version fd) (tls_max_version fd) = None"
    by (simp add: tls_version_error_def)
  with a show "\<exists>conf. NewConfiguration E fd = Inr conf \<and>
                TLSMinVersion conf = tls_min_version fd \<and> TLSMaxVersion conf = tls_max_version fd"
    by (simp add: NewConfiguration_accepts)
next
  fix tbl vmin vmax
  assume a: "TLSLookup E = map_of tbl \<and> version_order_agrees tbl \<and>
        groupfilter_error E (groupfilter fd) = None \<and> certificate_error E (certificate fd) = None \<and>
        tls_min_version fd \<noteq> [] \<and> tls_max_version fd \<noteq> [] \<and>
        TLSLookup E (tls_min_version fd) = Some vmin \<and>
        TLSLookup E (tls_max_version fd) = Some vmax \<and> vmin \<le> vmax"
  then have "map_of tbl (tls_max_version fd) = Some vmax" and "map_of tbl (tls_min_version fd) = Some vmin"
    and "version_order_agrees tbl" and "vmin \<le> vmax"
    by auto
  then have "\<not> string_less (tls_max_version fd) (tls_min_version fd)"
    using version_order_agreesD[of tbl "tls_max_version fd" vmax "tls_min_version fd" vmin] by simp
  with a have "tls_version_error E (tls_min_version fd) (tls_max_version fd) = None"
    by (auto simp: tls_version_error_def)
  with a show "\<exists>conf. NewConfiguration E fd = Inr conf \<and>
                TLSMinVersion conf = tls_min_version fd \<and> TLSMaxVersion conf = tls_max_version fd"
    by (simp add: NewConfiguration_accepts)
qed

text \<open>
  With the three identifiers \<open>tls10\<close>, \<open>tls11\<close> and \<open>tls12\<close>: the table agrees with the
  ordering; a maximum of \<open>tls10\<close> under a minimum of \<open>tls12\<close> is refused, as are an
  unknown and an empty identifier; a minimum of \<open>tls10\<close> and a maximum of \<open>tls12\<close> are
  accepted and stored.
\<close>

theorem NewConfiguration_tls_versions_witness:
  "version_order_agrees example_versions
   \<and> isl (NewConfiguration example_config_env (example_fields ''tls12'' ''tls10''))
   \<and> isl (NewConfiguration example_config_env (example_fields ''ssl30'' ''tls12''))
   \<and> isl (NewConfiguration example_config_env (example_fields ''tls12'' []))
   \<and> map_sum id TLSMinVersion (NewConfiguration example_config_env (example_fields ''tls10'' ''tls12''))
       = Inr ''tls10''
   \<and> map_sum id TLSMaxVersion (NewConfiguration example_config_env (example_fields ''tls10'' ''tls12''))
       = Inr ''tls12''"
proof -
  have v: "version_order_agrees example_versions"
    by (simp add: version_order_agrees_def example_versions_def)
  have t: "TLSLookup example_config_env = map_of example_versions"
    by (simp add: example_config_env_def)
  have l: "TLSLookup example_config_env ''tls10'' = Some 0x0301"
      "TLSLookup example_config_env ''tls12'' = Some 0x0303"
      "TLSLookup example_config_env ''ssl30'' = None"
    by (simp_all add: example_config_env_def example_versions_def)
  have g: "groupfilter_error example_config_env (groupfilter (example_fields a b)) = None"
      "certificate_error example_config_env (certificate (example_fields a b)) = None"
      "tls_min_version (example_fields a b) = a" "tls_max_version (example_fields a b) = b" for a b
    by (simp_all add: groupfilter_error_def certificate_error_def example_fields_def)
  have 1: "isl (NewConfiguration example_config_env (example_fields ''tls12'' ''tls10''))"
    using NewConfiguration_tls_versions[of "example_fields ''tls12'' ''tls10''" example_config_env,
        THEN conjunct2, THEN conjunct2, THEN conjunct1, rule_format,
        of example_versions "0x0303" "0x0301"] v t l g
    by simp
  have 2: "isl (NewConfiguration example_config_env (example_fields ''ssl30'' ''tls12''))"
    using NewConfiguration_tls_versions[of "example_fields ''ssl30'' ''tls12''" example_config_env,
        THEN conjunct1] l g
    by simp
  have 3: "isl (NewConfiguration example_config_env (example_fields ''tls12'' []))"
    using NewConfiguration_tls_versions[of "example_fields ''tls12'' []" example_config_env,
        THEN conjunct1] l g
    by simp
  have "\<exists>conf. NewConfiguration example_config_env (example_fields ''tls10'' ''tls12'') = Inr conf \<and>
          TLSMinVersion conf = ''tls10'' \<and> TLSMaxVersion conf = ''tls12''"
    using NewConfiguration_tls_versions[of "example_fields ''tls10'' ''tls12''" example_config_env,
        THEN conjunct2, THEN conjunct2, THEN conjunct2, THEN conjunct2, rule_format,
        of example_versions "0x0301" "0x0303"] v t l g
    by simp
  then have 4: "map_sum id TLSMinVersion (NewConfiguration example_config_env (example_fields ''tls10'' ''tls12''))
       = Inr ''tls10''"
    and 5: "map_sum id TLSMaxVersion (NewConfiguration example_config_env (example_fields ''tls10'' ''tls12''))
       = Inr ''tls12''"
    by auto
  from v 1 2 3 4 5 show ?thesis by blast
qed

section \<open>Properties of the directory client\<close>

lemmas example_ldap_defs =
  example_client_env_def example_url_Parse_def example_SplitHostPort_def example_Configuration_def
  example_tls_Config_def no_ldap_calls_def example_versions_def alice_def bob_def

subsection \<open>Splitting the list of URLs\<close>

lemma Split_not_Nil: "Split s sep \<noteq> []"
  by (induction s) (auto split: list.splits)

lemma Join_Cons: "ys \<noteq> [] \<Longrightarrow> Join (x # ys) sep = x @ sep # Join ys sep"
  by (cases ys) simp_all

lemma Join_Split: "Join (Split s sep) sep = s"
proof (induction s)
  case Nil
  show ?case by simp
next
  case (Cons c s)
  show ?case
  proof (cases "c = sep")
    case True
    with Cons show ?thesis by (simp add: Join_Cons Split_not_Nil)
  next
    case False
    obtain r rs where s: "Split s sep = r # rs"
      using Split_not_Nil[of s sep] by (cases "Split s sep") auto
    with Cons False show ?thesis by (cases rs) simp_all
  qed
qed

lemma Split_no_sep: "u \<in> set (Split s sep) \<Longrightarrow> sep \<notin> set u"
proof (induction s arbitrary: u)
  case Nil
  then show ?case by simp
next
  case (Cons c s)
  show ?case
  proof (cases "c = sep")
    case True
    with Cons show ?thesis by auto
  next
    case False
    obtain r rs where s: "Split s sep = r # rs"
      using Split_not_Nil[of s sep] by (cases "Split s sep") auto
    with Cons.prems False have "u = c # r \<or> u \<in> set rs" by simp
    moreover have "sep \<notin> set r" and "\<And>v. v \<in> set rs \<Longrightarrow> sep \<notin> set v"
      using Cons.IH s by simp_all
    ultimately show ?thesis using False by auto
  qed
qed

subsection \<open>One URL\<close>

lemma connect_parsed:
  assumes "url_Parse E uut = Inr u" and "host_port E u = (host, port)"
  shows "connect E conf uut w =
     (if Scheme u = ''ldap'' then
        (case Dial E ''tcp'' host (if port = [] then ''389'' else port) w of
           (Inl err, w1) \<Rightarrow> (Inl err, w1)
         | (Inr c, w1) \<Rightarrow>
             if StartTLS conf then
               (case getTLSConfig E conf host of
                  Inl err \<Rightarrow> (Inl err, w1)
                | Inr tlsConfig \<Rightarrow>
                    (case startTLS_err E (ldap_calls w1) c tlsConfig of
                       Some err \<Rightarrow> (Inl err, ldap_called (conn_StartTLS c tlsConfig) w1)
                     | None \<Rightarrow> (Inr c, ldap_called (conn_StartTLS c tlsConfig) w1)))
             else (Inr c, w1))
      else if Scheme u = ''ldaps'' then
        (case getTLSConfig E conf host of
           Inl err \<Rightarrow> (Inl err, w)
         | Inr tlsConfig \<Rightarrow> DialTLS E ''tcp'' host (if port = [] then ''636'' else port) tlsConfig w)
      else (Inl (Errorf ''invalid LDAP scheme in url %q'' [ArgHostPort host port]), w))"
proof -
  have "(case DialTLS E ''tcp'' host p t w of (Inl err, w1) \<Rightarrow> (Inl err, w1) | (Inr c, w1) \<Rightarrow> (Inr c, w1))
          = DialTLS E ''tcp'' host p t w" for p t
    by (simp split: prod.split sum.split)
  with assms show ?thesis
    unfolding connect_def host_port_def by (simp add: Let_def cong: sum.case_cong)
qed

lemma modify_requests_append:
  "modify_requests (xs @ ys) = modify_requests xs @ modify_requests ys"
  by (induction xs) (auto split: ldap_call.splits)

lemma Dial_no_modify:
  "modify_requests (ldap_calls (snd (Dial E n h p w))) = modify_requests (ldap_calls w)"
  by (simp add: Dial_def ldap_called_def modify_requests_append split: option.split)

lemma DialTLS_no_modify:
  "modify_requests (ldap_calls (snd (DialTLS E n h p t w))) = modify_requests (ldap_calls w)"
  by (simp add: DialTLS_def ldap_called_def modify_requests_append split: option.split)

lemma connect_no_modify:
  "modify_requests (ldap_calls (snd (connect E conf uut w))) = modify_requests (ldap_calls w)"
proof (cases "url_Parse E uut")
  case (Inl e)
  then show ?thesis by (simp add: connect_def)
next
  case (Inr u)
  obtain host port where hp: "host_port E u = (host, port)" by (cases "host_port E u") auto
  let ?p = "if port = [] then ''389'' else port"
  obtain r w1 where d: "Dial E ''tcp'' host ?p w = (r, w1)" by (cases "Dial E ''tcp'' host ?p w") auto
  with Dial_no_modify[of E "''tcp''" host ?p w]
  have m: "modify_requests (ldap_calls w1) = modify_requests (ldap_calls w)" by simp
  show ?thesis
    unfolding connect_parsed[OF Inr hp] d
    using m
    by (cases r)
      (simp_all add: DialTLS_no_modify ldap_called_def modify_requests_append
        split: sum.split option.split)
qed

subsection \<open>The URLs in order\<close>

lemma tryUrls_no_modify:
  "modify_requests (ldap_calls (snd (tryUrls E conf urls retErr w))) = modify_requests (ldap_calls w)"
proof (induction urls arbitrary: retErr w)
  case Nil
  show ?case by simp
next
  case (Cons uut urls)
  obtain r w1 where c: "connect E conf uut w = (r, w1)" by (cases "connect E conf uut w") auto
  with connect_no_modify[of E conf uut w]
  have m: "modify_requests (ldap_calls w1) = modify_requests (ldap_calls w)" by simp
  show ?case
  proof (cases r)
    case (Inl err)
    with c Cons.IH m show ?thesis by simp
  next
    case (Inr cn)
    with c m show ?thesis by simp
  qed
qed

lemma getConnection_no_modify:
  "modify_requests (ldap_calls (snd (getConnection E conf w))) = modify_requests (ldap_calls w)"
  by (simp add: getConnection_def tryUrls_no_modify)

lemma Search_no_modify:
  "modify_requests (ldap_calls (snd (Search E conf baseDN f w))) = modify_requests (ldap_calls w)"
proof -
  obtain r w1 where g: "getConnection E conf w = (r, w1)" by (cases "getConnection E conf w") auto
  with getConnection_no_modify[of E conf w]
  have "modify_requests (ldap_calls w1) = modify_requests (ldap_calls w)" by simp
  with g show ?thesis
    by (cases r) (simp_all add: Search_def ldap_called_def modify_requests_append Let_def)
qed

lemma tryUrls_fail_run:
  "fail_run E conf pre w = Some (errs, w1) \<Longrightarrow>
     tryUrls E conf (pre @ rest) retErr w = tryUrls E conf rest (retErr @ errs) w1"
proof (induction pre arbitrary: retErr w errs)
  case Nil
  then show ?case by simp
next
  case (Cons uut pre)
  obtain r w0 where c: "connect E conf uut w = (r, w0)" by (cases "connect E conf uut w") auto
  from Cons.prems c obtain err errs' where
    r: "r = Inl err" and f: "fail_run E conf pre w0 = Some (errs', w1)"
    and e: "errs = Errorf ''error parsing url %q: %s'' [ArgS uut, ArgE err] # errs'"
    by (cases r) (auto split: option.splits)
  from Cons.IH[OF f] c r e show ?case by simp
qed

lemma fail_run_length: "fail_run E conf urls w = Some (errs, w1) \<Longrightarrow> length errs = length urls"
proof (induction urls arbitrary: w errs)
  case Nil
  then show ?case by simp
next
  case (Cons uut urls)
  then show ?case
    by (auto split: prod.splits sum.splits option.splits)
qed

text \<open>The list of URLs is never empty, so \<open>getConnection\<close> never meets the nil error.\<close>

lemma tryUrls_no_panic:
  "urls \<noteq> [] \<or> retErr \<noteq> [] \<Longrightarrow> fst (tryUrls E conf urls retErr w) \<noteq> Inl (Panic m)"
proof (induction urls arbitrary: retErr w)
  case Nil
  then show ?case by simp
next
  case (Cons uut urls)
  obtain r w1 where c: "connect E conf uut w = (r, w1)" by (cases "connect E conf uut w") auto
  show ?case
  proof (cases r)
    case (Inl err)
    with c Cons.IH[of "retErr @ [Errorf ''error parsing url %q: %s'' [ArgS uut, ArgE err]]" w1]
    show ?thesis by simp
  next
    case (Inr cn)
    with c show ?thesis by simp
  qed
qed

lemma getConnection_no_panic: "fst (getConnection E conf w) \<noteq> Inl (Panic m)"
  unfolding getConnection_def by (rule tryUrls_no_panic) (simp add: Split_not_Nil)

lemma getConnection_first_success:
  assumes "Split (Url conf) CHR '','' = pre @ uut # post"
    and "fail_run E conf pre w = Some (errs, w1)"
    and "connect E conf uut w1 = (Inr c, w2)"
  shows "getConnection E conf w = (Inr c, w2)"
  using tryUrls_fail_run[OF assms(2), of "uut # post" "[]"] assms(1,3)
  by (simp add: getConnection_def)

lemma getConnection_all_fail:
  assumes "fail_run E conf (Split (Url conf) CHR '','') w = Some (errs, w1)"
  shows "getConnection E conf w = (Inl (MultiError errs), w1) \<and>
         length errs = length (Split (Url conf) CHR '','') \<and> errs \<noteq> []"
proof -
  from fail_run_length[OF assms] have l: "length errs = length (Split (Url conf) CHR '','')" .
  with Split_not_Nil[of "Url conf" "CHR '',''"] have n: "errs \<noteq> []" by auto
  from tryUrls_fail_run[OF assms, of "[]" "[]"] n l show ?thesis
    by (simp add: getConnection_def)
qed

text \<open>
  Claim C9. The URLs are the parts of the configured string between its commas (put
  together with commas they give the string back, and none holds a comma), and they are
  tried in this order, each from the state the one before left.

  For one URL that parses, with \<open>host\<close> and \<open>port\<close> as \<open>connect\<close> reads them: under the
  scheme \<open>ldap\<close> the code dials \<open>tcp\<close> in the clear, to port 389 when the port is empty;
  a failed dial is that URL's failure; after a dial that worked, the connection is
  returned as it is when StartTLS is not configured, and after a StartTLS call on it
  when it is. Under \<open>ldaps\<close> the code dials with TLS, to port 636 when the port is
  empty. Under any other scheme the URL fails and nothing is dialled.

  When the URLs before one all fail and that one connects, its connection is returned
  and the state is the one after that attempt: no later URL is tried. When all fail, the
  error holds one failure for each URL, in order.
\<close>

theorem getConnection_failover:
  assumes "urls = Split (Url conf) CHR '',''"
    and "url_Parse E uut = Inr u"
    and "host_port E u = (host, port)"
    and "p389 = (if port = [] then ''389'' else port)"
    and "p636 = (if port = [] then ''636'' else port)"
  shows "Join urls CHR '','' = Url conf \<and> (\<forall>x \<in> set urls. CHR '','' \<notin> set x)
    \<and> (\<forall>err. Scheme u = ''ldap'' \<and> dial_err E (ldap_calls w) ''tcp'' host p389 = Some err \<longrightarrow>
          connect E conf uut w = (Inl err, w\<lparr>ldap_calls := ldap_calls w @ [ldap_Dial ''tcp'' host p389]\<rparr>))
    \<and> (Scheme u = ''ldap'' \<and> dial_err E (ldap_calls w) ''tcp'' host p389 = None \<and> \<not> StartTLS conf \<longrightarrow>
          connect E conf uut w =
            (Inr (dialed w),
             \<lparr>ldap_calls = ldap_calls w @ [ldap_Dial ''tcp'' host p389], dialed = Suc (dialed w)\<rparr>))
    \<and> (\<forall>t. Scheme u = ''ldap'' \<and> dial_err E (ldap_calls w) ''tcp'' host p389 = None \<and> StartTLS conf \<and>
            getTLSConfig E conf host = Inr t \<and>
            startTLS_err E (ldap_calls w @ [ldap_Dial ''tcp'' host p389]) (dialed w) t = None \<longrightarrow>
          connect E conf uut w =
            (Inr (dialed w),
             \<lparr>ldap_calls = ldap_calls w @ [ldap_Dial ''tcp'' host p389, conn_StartTLS (dialed w) t],
               dialed = Suc (dialed w)\<rparr>))
    \<and> (\<forall>t. Scheme u = ''ldaps'' \<and> getTLSConfig E conf host = Inr t \<and>
            dialTLS_err E (ldap_calls w) ''tcp'' host p636 t = None \<longrightarrow>
          connect E conf uut w =
            (Inr (dialed w),
             \<lparr>ldap_calls = ldap_calls w @ [ldap_DialTLS ''tcp'' host p636 t], dialed = Suc (dialed w)\<rparr>))
    \<and> (Scheme u \<noteq> ''ldap'' \<and> Scheme u \<noteq> ''ldaps'' \<longrightarrow>
          connect E conf uut w =
            (Inl (Errorf ''invalid LDAP scheme in url %q'' [ArgHostPort host port]), w))
    \<and> (\<forall>pre x post errs w0 w1 c w2.
          urls = pre @ x # post \<and> fail_run E conf pre w0 = Some (errs, w1) \<and>
          connect E conf x w1 = (Inr c, w2) \<longrightarrow>
          getConnection E conf w0 = (Inr c, w2))
    \<and> (\<forall>errs w0 w1.
          fail_run E conf urls w0 = Some (errs, w1) \<longrightarrow>
          getConnection E conf w0 = (Inl (MultiError errs), w1) \<and> length errs = length urls)"
proof (intro conjI allI impI ballI)
  show "Join urls CHR '','' = Url conf"
    using assms(1) by (simp add: Join_Split)
next
  fix x assume "x \<in> set urls"
  then show "CHR '','' \<notin> set x"
    using assms(1) by (simp add: Split_no_sep)
next
  fix err
  assume "Scheme u = ''ldap'' \<and> dial_err E (ldap_calls w) ''tcp'' host p389 = Some err"
  then show "connect E conf uut w =
      (Inl err, w\<lparr>ldap_calls := ldap_calls w @ [ldap_Dial ''tcp'' host p389]\<rparr>)"
    using assms(4) by (simp add: connect_parsed[OF assms(2,3)] Dial_def ldap_called_def)
next
  assume "Scheme u = ''ldap'' \<and> dial_err E (ldap_calls w) ''tcp'' host p389 = None \<and> \<not> StartTLS conf"
  then show "connect E conf uut w =
      (Inr (dialed w),
       \<lparr>ldap_calls = ldap_calls w @ [ldap_Dial ''tcp'' host p389], dialed = Suc (dialed w)\<rparr>)"
    using assms(4) by (simp add: connect_parsed[OF assms(2,3)] Dial_def ldap_called_def)
next
  fix t
  assume "Scheme u = ''ldap'' \<and> dial_err E (ldap_calls w) ''tcp'' host p389 = None \<and> StartTLS conf \<and>
            getTLSConfig E conf host = Inr t \<and>
            startTLS_err E (ldap_calls w @ [ldap_Dial ''tcp'' host p389]) (dialed w) t = None"
  then show "connect E conf uut w =
      (Inr (dialed w),
       \<lparr>ldap_calls = ldap_calls w @ [ldap_Dial ''tcp'' host p389, conn_StartTLS (dialed w) t],
         dialed = Suc (dialed w)\<rparr>)"
    using assms(4) by (simp add: connect_parsed[OF assms(2,3)] Dial_def ldap_called_def)
next
  fix t
  assume "Scheme u = ''ldaps'' \<and> getTLSConfig E conf host = Inr t \<and>
            dialTLS_err E (ldap_calls w) ''tcp'' host p636 t = None"
  then show "connect E conf uut w =
      (Inr (dialed w),
       \<lparr>ldap_calls = ldap_calls w @ [ldap_DialTLS ''tcp'' host p636 t], dialed = Suc (dialed w)\<rparr>)"
    using assms(5) by (simp add: connect_parsed[OF assms(2,3)] DialTLS_def ldap_called_def)
next
  assume "Scheme u \<noteq> ''ldap'' \<and> Scheme u \<noteq> ''ldaps''"
  then show "connect E conf uut w =
      (Inl (Errorf ''invalid LDAP scheme in url %q'' [ArgHostPort host port]), w)"
    by (simp add: connect_parsed[OF assms(2,3)])
next
  fix pre x post errs w0 w1 c w2
  assume "urls = pre @ x # post \<and> fail_run E conf pre w0 = Some (errs, w1) \<and>
          connect E conf x w1 = (Inr c, w2)"
  then show "getConnection E conf w0 = (Inr c, w2)"
    using getConnection_first_success[of conf pre x post E w0 errs w1 c w2] assms(1) by simp
next
  fix errs w0 w1
  assume "fail_run E conf urls w0 = Some (errs, w1)"
  then show "getConnection E conf w0 = (Inl (MultiError errs), w1)" and "length errs = length urls"
    using getConnection_all_fail[of E conf w0 errs w1] assms(1) by simp_all
qed

text \<open>
  Three URLs: the first host is down, the second is reached with TLS on its own port,
  the third is never tried. Two URLs: the first host is down, the scheme of the second
  is not a directory scheme, and the error holds both failures.
\<close>

theorem getConnection_failover_witness:
  "getConnection example_client_env
       (example_Configuration ''ldap://down,ldaps://dc2:3269,ldap://dc3'') no_ldap_calls =
     (Inr 0,
      \<lparr>ldap_calls = [ldap_Dial ''tcp'' ''down'' ''389'',
                      ldap_DialTLS ''tcp'' ''dc2'' ''3269'' (example_tls_Config ''dc2'')],
        dialed = 1\<rparr>)
   \<and> getConnection example_client_env (example_Configuration ''ldap://down,http://x'') no_ldap_calls =
     (Inl (MultiError
        [Errorf ''error parsing url %q: %s'' [ArgS ''ldap://down'', ArgE (Ext ''connection refused'')],
         Errorf ''error parsing url %q: %s''
           [ArgS ''http://x'', ArgE (Errorf ''invalid LDAP scheme in url %q'' [ArgHostPort ''x'' []])]]),
      \<lparr>ldap_calls = [ldap_Dial ''tcp'' ''down'' ''389''], dialed = 0\<rparr>)"
proof -
  let ?E = example_client_env
  let ?c3 = "example_Configuration ''ldap://down,ldaps://dc2:3269,ldap://dc3''"
  let ?c2 = "example_Configuration ''ldap://down,http://x''"
  let ?w1 = "\<lparr>ldap_calls = [ldap_Dial ''tcp'' ''down'' ''389''], dialed = 0\<rparr>"
  let ?e1 = "Errorf ''error parsing url %q: %s'' [ArgS ''ldap://down'', ArgE (Ext ''connection refused'')]"
  let ?e2 = "Errorf ''error parsing url %q: %s''
           [ArgS ''http://x'', ArgE (Errorf ''invalid LDAP scheme in url %q'' [ArgHostPort ''x'' []])]"
  have s3: "Split (Url ?c3) CHR '','' = [''ldap://down''] @ ''ldaps://dc2:3269'' # [''ldap://dc3'']"
    by (simp add: example_Configuration_def)
  have s2: "Split (Url ?c2) CHR '','' = [''ldap://down'', ''http://x'']"
    by (simp add: example_Configuration_def)
  have p: "url_Parse ?E ''ldap://down'' = Inr \<lparr>Scheme = ''ldap'', Host = ''down''\<rparr>"
    by (simp add: example_client_env_def example_url_Parse_def)
  have h: "host_port ?E \<lparr>Scheme = ''ldap'', Host = ''down''\<rparr> = (''down'', [])"
    by (simp add: host_port_def example_client_env_def example_SplitHostPort_def)
  have f3: "fail_run ?E ?c3 [''ldap://down''] no_ldap_calls = Some ([?e1], ?w1)"
    by (simp add: connect_def Dial_def ldap_called_def Let_def example_ldap_defs)
  have c3: "connect ?E ?c3 ''ldaps://dc2:3269'' ?w1 =
      (Inr 0, \<lparr>ldap_calls = [ldap_Dial ''tcp'' ''down'' ''389'',
                      ldap_DialTLS ''tcp'' ''dc2'' ''3269'' (example_tls_Config ''dc2'')],
        dialed = 1\<rparr>)"
    by (simp add: connect_def DialTLS_def getTLSConfig_def ldap_called_def Let_def example_ldap_defs)
  have f2: "fail_run ?E ?c2 [''ldap://down'', ''http://x''] no_ldap_calls = Some ([?e1, ?e2], ?w1)"
    by (simp add: connect_def Dial_def ldap_called_def Let_def example_ldap_defs)
  note t3 = getConnection_failover[OF refl p h refl refl, of ?c3 no_ldap_calls]
  note t2 = getConnection_failover[OF refl p h refl refl, of ?c2 no_ldap_calls]
  have 1: "getConnection ?E ?c3 no_ldap_calls =
     (Inr 0, \<lparr>ldap_calls = [ldap_Dial ''tcp'' ''down'' ''389'',
                      ldap_DialTLS ''tcp'' ''dc2'' ''3269'' (example_tls_Config ''dc2'')],
        dialed = 1\<rparr>)"
    using t3[THEN conjunct2, THEN conjunct2, THEN conjunct2, THEN conjunct2, THEN conjunct2,
        THEN conjunct2, THEN conjunct2, THEN conjunct1, rule_format,
        of "[''ldap://down'']" "''ldaps://dc2:3269''" "[''ldap://dc3'']" no_ldap_calls "[?e1]" ?w1]
      s3 f3 c3
    by simp
  have 2: "getConnection ?E ?c2 no_ldap_calls = (Inl (MultiError [?e1, ?e2]), ?w1)"
    using t2[THEN conjunct2, THEN conjunct2, THEN conjunct2, THEN conjunct2, THEN conjunct2,
        THEN conjunct2, THEN conjunct2, THEN conjunct2, rule_format,
        of no_ldap_calls "[?e1, ?e2]" ?w1]
      s2 f2
    by simp
  from 1 2 show ?thesis by simp
qed

subsection \<open>Changing a password\<close>

text \<open>
  Claim C4. For every base DN, filter and new password: when the search fails, or
  yields no entry or more than one, \<open>UpdatePassword\<close> returns an error and no modify
  request is among the calls it made. When the search yields exactly one entry, the
  encoder returns the encoding of the new password between two double quotes and the
  connection for the modification is made, \<open>UpdatePassword\<close> sends one modify request
  on that connection, for the entry's DN, replacing the attribute \<open>unicodePwd\<close> by that
  encoding, closes the connection and returns what the modification returned. In no case
  does it send more than one modify request; and when, after a search with one entry,
  the encoder fails or no connection can be made, it returns that error and sends none.
\<close>

theorem UpdatePassword_single_match:
  "(\<forall>err w1. Search E conf baseDN f w = (Inl err, w1) \<longrightarrow>
      UpdatePassword E conf baseDN f newPassword w = (Some err, w1) \<and>
      modify_requests (ldap_calls w1) = modify_requests (ldap_calls w))
   \<and> (\<forall>entries w1. Search E conf baseDN f w = (Inr entries, w1) \<and> length entries \<noteq> 1 \<longrightarrow>
        fst (UpdatePassword E conf baseDN f newPassword w) \<noteq> None \<and>
        snd (UpdatePassword E conf baseDN f newPassword w) = w1 \<and>
        modify_requests (ldap_calls w1) = modify_requests (ldap_calls w))
   \<and> (\<forall>e w1 pwdEncoded c w2 req.
        Search E conf baseDN f w = (Inr [e], w1) \<and>
        UTF16LE_String E ([CHR 0x22] @ newPassword @ [CHR 0x22]) = Inr pwdEncoded \<and>
        getConnection E conf w1 = (Inr c, w2) \<and>
        req = \<lparr>DN = Entry.DN e, ReplaceAttributes = [(''unicodePwd'', [pwdEncoded])]\<rparr> \<longrightarrow>
        UpdatePassword E conf baseDN f newPassword w =
          (modify_err E (ldap_calls w2) c req,
           w2\<lparr>ldap_calls := ldap_calls w2 @ [conn_Modify c req, conn_Close c]\<rparr>) \<and>
        modify_requests (ldap_calls (snd (UpdatePassword E conf baseDN f newPassword w))) =
          modify_requests (ldap_calls w) @ [(c, req)])
   \<and> (\<exists>ms. modify_requests (ldap_calls (snd (UpdatePassword E conf baseDN f newPassword w))) =
             modify_requests (ldap_calls w) @ ms \<and> length ms \<le> 1)
   \<and> (\<forall>e w1 err.
        Search E conf baseDN f w = (Inr [e], w1) \<and>
        UTF16LE_String E ([CHR 0x22] @ newPassword @ [CHR 0x22]) = Inl err \<longrightarrow>
        UpdatePassword E conf baseDN f newPassword w = (Some err, w1) \<and>
        modify_requests (ldap_calls w1) = modify_requests (ldap_calls w))
   \<and> (\<forall>e w1 pwdEncoded err w2.
        Search E conf baseDN f w = (Inr [e], w1) \<and>
        UTF16LE_String E ([CHR 0x22] @ newPassword @ [CHR 0x22]) = Inr pwdEncoded \<and>
        getConnection E conf w1 = (Inl err, w2) \<longrightarrow>
        UpdatePassword E conf baseDN f newPassword w = (Some err, w2) \<and>
        modify_requests (ldap_calls w2) = modify_requests (ldap_calls w))"
proof -
  obtain r w1 where s: "Search E conf baseDN f w = (r, w1)"
    by (cases "Search E conf baseDN f w") auto
  from Search_no_modify[of E conf baseDN f w] s
  have m1: "modify_requests (ldap_calls w1) = modify_requests (ldap_calls w)" by simp
  obtain g w2 where gc: "getConnection E conf w1 = (g, w2)"
    by (cases "getConnection E conf w1") auto
  from getConnection_no_modify[of E conf w1] gc m1
  have m2: "modify_requests (ldap_calls w2) = modify_requests (ldap_calls w)" by simp
  have a: "UpdatePassword E conf baseDN f newPassword w = (Some err, w1)" if "r = Inl err" for err
    using s that by (simp add: UpdatePassword_def)
  have b: "fst (UpdatePassword E conf baseDN f newPassword w) \<noteq> None \<and>
           snd (UpdatePassword E conf baseDN f newPassword w) = w1"
    if "r = Inr entries" and "length entries \<noteq> 1" for entries
    using s that by (simp add: UpdatePassword_def)
  have c: "UpdatePassword E conf baseDN f newPassword w =
          (modify_err E (ldap_calls w2) c req,
           w2\<lparr>ldap_calls := ldap_calls w2 @ [conn_Modify c req, conn_Close c]\<rparr>)"
    if "r = Inr [e]" and "UTF16LE_String E ([CHR 0x22] @ newPassword @ [CHR 0x22]) = Inr pwdEncoded"
      and "g = Inr c"
      and "req = \<lparr>DN = Entry.DN e, ReplaceAttributes = [(''unicodePwd'', [pwdEncoded])]\<rparr>"
    for e pwdEncoded c req
    using s gc that by (simp add: UpdatePassword_def ldap_called_def Let_def)
  have d: "\<exists>ms. modify_requests (ldap_calls (snd (UpdatePassword E conf baseDN f newPassword w))) =
             modify_requests (ldap_calls w) @ ms \<and> length ms \<le> 1"
  proof (cases r)
    case (Inl err)
    with a[OF Inl] m1 show ?thesis by simp
  next
    case (Inr entries)
    show ?thesis
    proof (cases "length entries = 1")
      case False
      with b[OF Inr] m1 show ?thesis by simp
    next
      case True
      then obtain e where e: "entries = [e]" by (cases entries) auto
      show ?thesis
      proof (cases "UTF16LE_String E ([CHR 0x22] @ newPassword @ [CHR 0x22])")
        case (Inl err)
        with s Inr e m1 show ?thesis by (simp add: UpdatePassword_def)
      next
        case enc: (Inr pwdEncoded)
        show ?thesis
        proof (cases g)
          case (Inl err)
          with s Inr e enc gc m2 show ?thesis by (simp add: UpdatePassword_def)
        next
          case gi: (Inr cn)
          from c[OF _ enc gi refl, of e] Inr e m2 show ?thesis
            by (simp add: modify_requests_append)
        qed
      qed
    qed
  qed
  show ?thesis
  proof (intro conjI allI impI)
    fix err w1'
    assume "Search E conf baseDN f w = (Inl err, w1')"
    with s have eq: "r = Inl err" "w1' = w1" by auto
    from a[OF eq(1)] m1 eq(2)
    show "UpdatePassword E conf baseDN f newPassword w = (Some err, w1')"
      and "modify_requests (ldap_calls w1') = modify_requests (ldap_calls w)" by simp_all
  next
    fix entries w1'
    assume "Search E conf baseDN f w = (Inr entries, w1') \<and> length entries \<noteq> 1"
    with s have eq: "r = Inr entries" "w1' = w1" and ne: "length entries \<noteq> 1" by auto
    from b[OF eq(1) ne] m1 eq(2)
    show "fst (UpdatePassword E conf baseDN f newPassword w) \<noteq> None"
      and "snd (UpdatePassword E conf baseDN f newPassword w) = w1'"
      and "modify_requests (ldap_calls w1') = modify_requests (ldap_calls w)" by simp_all
  next
    fix e w1' pwdEncoded cn w2' req
    assume h: "Search E conf baseDN f w = (Inr [e], w1') \<and>
        UTF16LE_String E ([CHR 0x22] @ newPassword @ [CHR 0x22]) = Inr pwdEncoded \<and>
        getConnection E conf w1' = (Inr cn, w2') \<and>
        req = \<lparr>DN = Entry.DN e, ReplaceAttributes = [(''unicodePwd'', [pwdEncoded])]\<rparr>"
    with s gc have eq: "r = Inr [e]" "w1' = w1" "g = Inr cn" "w2' = w2" by auto
    from h have enc: "UTF16LE_String E ([CHR 0x22] @ newPassword @ [CHR 0x22]) = Inr pwdEncoded"
      and rq: "req = \<lparr>DN = Entry.DN e, ReplaceAttributes = [(''unicodePwd'', [pwdEncoded])]\<rparr>"
      by simp_all
    from c[OF eq(1) enc eq(3) rq] eq
    show u: "UpdatePassword E conf baseDN f newPassword w =
          (modify_err E (ldap_calls w2') cn req,
           w2'\<lparr>ldap_calls := ldap_calls w2' @ [conn_Modify cn req, conn_Close cn]\<rparr>)" by simp
    from u m2 eq
    show "modify_requests (ldap_calls (snd (UpdatePassword E conf baseDN f newPassword w))) =
          modify_requests (ldap_calls w) @ [(cn, req)]"
      by (simp add: modify_requests_append)
  next
    from d show "\<exists>ms. modify_requests (ldap_calls (snd (UpdatePassword E conf baseDN f newPassword w))) =
             modify_requests (ldap_calls w) @ ms \<and> length ms \<le> 1" .
  next
    fix e w1' err
    assume "Search E conf baseDN f w = (Inr [e], w1') \<and>
        UTF16LE_String E ([CHR 0x22] @ newPassword @ [CHR 0x22]) = Inl err"
    with s have eq: "r = Inr [e]" "w1' = w1"
      and enc: "UTF16LE_String E ([CHR 0x22] @ newPassword @ [CHR 0x22]) = Inl err" by auto
    from s eq enc m1
    show "UpdatePassword E conf baseDN f newPassword w = (Some err, w1')"
      and "modify_requests (ldap_calls w1') = modify_requests (ldap_calls w)"
      by (simp_all add: UpdatePassword_def)
  next
    fix e w1' pwdEncoded err w2'
    assume "Search E conf baseDN f w = (Inr [e], w1') \<and>
        UTF16LE_String E ([CHR 0x22] @ newPassword @ [CHR 0x22]) = Inr pwdEncoded \<and>
        getConnection E conf w1' = (Inl err, w2')"
    with s gc have eq: "r = Inr [e]" "w1' = w1" "g = Inl err" "w2' = w2"
      and enc: "UTF16LE_String E ([CHR 0x22] @ newPassword @ [CHR 0x22]) = Inr pwdEncoded" by auto
    from s gc eq enc m2
    show "UpdatePassword E conf baseDN f newPassword w = (Some err, w2')"
      and "modify_requests (ldap_calls w2') = modify_requests (ldap_calls w)"
      by (simp_all add: UpdatePassword_def)
  qed
qed

text \<open>
  Against the example directory: a filter that matches nobody and a filter that matches
  two entries give an error and no modify request; the filter that matches \<open>alice\<close>
  gives one modify request, on the second connection, for her DN, with the password
  \<open>pw\<close> between double quotes in UTF-16LE.
\<close>

theorem UpdatePassword_single_match_witness:
  "fst (UpdatePassword example_client_env (example_Configuration ''ldap://dc3'')
          ''dc=example,dc=com'' ''(cn=none)'' ''pw'' no_ldap_calls) \<noteq> None
   \<and> modify_requests (ldap_calls (snd (UpdatePassword example_client_env
          (example_Configuration ''ldap://dc3'') ''dc=example,dc=com'' ''(cn=none)'' ''pw'' no_ldap_calls))) = []
   \<and> fst (UpdatePassword example_client_env (example_Configuration ''ldap://dc3'')
          ''dc=example,dc=com'' ''(cn=*)'' ''pw'' no_ldap_calls) \<noteq> None
   \<and> modify_requests (ldap_calls (snd (UpdatePassword example_client_env
          (example_Configuration ''ldap://dc3'') ''dc=example,dc=com'' ''(cn=*)'' ''pw'' no_ldap_calls))) = []
   \<and> fst (UpdatePassword example_client_env (example_Configuration ''ldap://dc3'')
          ''dc=example,dc=com'' ''(cn=alice)'' ''pw'' no_ldap_calls) = None
   \<and> modify_requests (ldap_calls (snd (UpdatePassword example_client_env
          (example_Configuration ''ldap://dc3'') ''dc=example,dc=com'' ''(cn=alice)'' ''pw'' no_ldap_calls))) =
       [(1, \<lparr>DN = ''cn=alice,dc=example,dc=com'',
             ReplaceAttributes =
               [(''unicodePwd'',
                 [[CHR 0x22, CHR 0x00, CHR ''p'', CHR 0x00, CHR ''w'', CHR 0x00, CHR 0x22, CHR 0x00]])]\<rparr>)]"
proof -
  let ?E = example_client_env
  let ?c = "example_Configuration ''ldap://dc3''"
  let ?b = "''dc=example,dc=com''"
  let ?w1 = "\<lambda>f. \<lparr>ldap_calls = [ldap_Dial ''tcp'' ''dc3'' ''389'',
                 conn_Search 0 \<lparr>BaseDN = ?b, Scope = 2, Filter = f\<rparr>, conn_Close 0], dialed = 1\<rparr>"
  let ?w2 = "\<lparr>ldap_calls = [ldap_Dial ''tcp'' ''dc3'' ''389'',
                 conn_Search 0 \<lparr>BaseDN = ?b, Scope = 2, Filter = ''(cn=alice)''\<rparr>, conn_Close 0,
                 ldap_Dial ''tcp'' ''dc3'' ''389''], dialed = 2\<rparr>"
  let ?req = "\<lparr>DN = ''cn=alice,dc=example,dc=com'',
             ReplaceAttributes =
               [(''unicodePwd'',
                 [[CHR 0x22, CHR 0x00, CHR ''p'', CHR 0x00, CHR ''w'', CHR 0x00, CHR 0x22, CHR 0x00]])]\<rparr>"
  have m0: "modify_requests (ldap_calls no_ldap_calls) = []"
    by (simp add: no_ldap_calls_def)
  have s0: "Search ?E ?c ?b ''(cn=none)'' no_ldap_calls = (Inr [], ?w1 ''(cn=none)'')"
    by (simp add: Search_def getConnection_def connect_def Dial_def ldap_called_def Let_def example_ldap_defs)
  have s2: "Search ?E ?c ?b ''(cn=*)'' no_ldap_calls = (Inr [alice, bob], ?w1 ''(cn=*)'')"
    by (simp add: Search_def getConnection_def connect_def Dial_def ldap_called_def Let_def example_ldap_defs)
  have s1: "Search ?E ?c ?b ''(cn=alice)'' no_ldap_calls = (Inr [alice], ?w1 ''(cn=alice)'')"
    by (simp add: Search_def getConnection_def connect_def Dial_def ldap_called_def Let_def example_ldap_defs)
  have en: "UTF16LE_String ?E ([CHR 0x22] @ ''pw'' @ [CHR 0x22]) =
      Inr [CHR 0x22, CHR 0x00, CHR ''p'', CHR 0x00, CHR ''w'', CHR 0x00, CHR 0x22, CHR 0x00]"
    by (simp add: example_client_env_def)
  have gc: "getConnection ?E ?c (?w1 ''(cn=alice)'') = (Inr 1, ?w2)"
    by (simp add: getConnection_def connect_def Dial_def ldap_called_def Let_def example_ldap_defs)
  have me: "modify_err ?E (ldap_calls ?w2) 1 ?req = None"
    by (simp add: example_client_env_def)
  have rq: "?req = \<lparr>DN = Entry.DN alice, ReplaceAttributes = [(''unicodePwd'',
      [[CHR 0x22, CHR 0x00, CHR ''p'', CHR 0x00, CHR ''w'', CHR 0x00, CHR 0x22, CHR 0x00]])]\<rparr>"
    by (simp add: alice_def)
  note t0 = UpdatePassword_single_match[of ?E ?c ?b "''(cn=none)''" no_ldap_calls "''pw''",
      THEN conjunct2, THEN conjunct1, rule_format, of "[]" "?w1 ''(cn=none)''"]
  note t2 = UpdatePassword_single_match[of ?E ?c ?b "''(cn=*)''" no_ldap_calls "''pw''",
      THEN conjunct2, THEN conjunct1, rule_format, of "[alice, bob]" "?w1 ''(cn=*)''"]
  note t1 = UpdatePassword_single_match[of ?E ?c ?b "''(cn=alice)''" no_ldap_calls "''pw''",
      THEN conjunct2, THEN conjunct2, THEN conjunct1, rule_format,
      of alice "?w1 ''(cn=alice)''" _ 1 ?w2 ?req]
  have 0: "fst (UpdatePassword ?E ?c ?b ''(cn=none)'' ''pw'' no_ldap_calls) \<noteq> None \<and>
      modify_requests (ldap_calls (snd (UpdatePassword ?E ?c ?b ''(cn=none)'' ''pw'' no_ldap_calls))) = []"
    using t0 s0 m0 by simp
  have 2: "fst (UpdatePassword ?E ?c ?b ''(cn=*)'' ''pw'' no_ldap_calls) \<noteq> None \<and>
      modify_requests (ldap_calls (snd (UpdatePassword ?E ?c ?b ''(cn=*)'' ''pw'' no_ldap_calls))) = []"
    using t2 s2 m0 by simp
  have 1: "fst (UpdatePassword ?E ?c ?b ''(cn=alice)'' ''pw'' no_ldap_calls) = None \<and>
      modify_requests (ldap_calls (snd (UpdatePassword ?E ?c ?b ''(cn=alice)'' ''pw'' no_ldap_calls))) =
        [(1, ?req)]"
    using t1 s1 en gc rq me m0 by simp
  from 0 2 1 show ?thesis by blast
qed

end
